theory Spec2Isabelle
  imports Main
begin

section \<open>Data model of \<open>bot/anthropic_utils.py\<close>\<close>

text \<open>
  A dialog turn is the dict \<open>{"user": ..., "bot": ...}\<close> the caller keeps in its history.
  Texts are byte strings here; the whitespace of \<open>str.strip\<close> is therefore the ASCII one.
\<close>

record turn =
  user :: string
  bot :: string

text \<open>
  A message of the request is the dict \<open>{"role": r, "content": c}\<close>. The token accounting
  walks \<open>message.items()\<close>, so the dict is kept as its list of (key, value) pairs in
  insertion order.
\<close>

type_synonym message = "(string \<times> string) list"

definition role_content :: "string \<Rightarrow> string \<Rightarrow> message" where
  "role_content r c = [(''role'', r), (''content'', c)]"

text \<open>
  The keyword arguments of \<open>client.messages.create\<close>. The constant sampling options
  \<open>ANTHROPIC_COMPLETION_OPTIONS\<close> (temperature 0.7, top-p 1, timeout 60.0 are floats) are the
  same in every call and are left out, except \<open>max_tokens\<close>.
\<close>

record request =
  req_model :: string
  req_system :: string
  req_messages :: "message list"
  req_stream :: bool
  req_max_tokens :: nat

text \<open>The part of a completed (non-streamed) reply the code reads:
  \<open>r.content[0].text\<close>, \<open>r.usage.input_tokens\<close>, \<open>r.usage.output_tokens\<close>.\<close>

record response =
  content0_text :: string
  usage_input_tokens :: int
  usage_output_tokens :: int

text \<open>
  The value of \<open>e.status_code\<close>. The handler compares it with the \<^emph>\<open>strings\<close> \<open>'403'\<close> and
  \<open>'429'\<close>; Python's \<open>==\<close> between an \<open>int\<close> and a \<open>str\<close> is \<open>False\<close>, which is what
  equality of this datatype gives.
\<close>

datatype pyval = PyInt int | PyStr string

text \<open>
  Exceptions. \<open>APIStatusError\<close> is the class the \<open>except\<close> clause catches; \<open>RemoteError\<close>
  stands for every other exception of the remote call (connection, timeout ...). The four
  \<open>ValueError\<close>s the module raises are told apart by their message:
  \<^item> \<open>UnsupportedModeError m\<close>: \<open>ValueError(f"Chat mode {chat_mode} is not supported")\<close>;
  \<^item> \<open>HistoryExhaustedError e\<close>: \<open>ValueError("Dialog messages is reduced to zero, but still has
    too many tokens to make completion") from e\<close>;
  \<^item> \<open>RateLimitedError e\<close>: the \<open>ValueError\<close> of the \<open>'429'\<close> branch, whose text ends in the
    rendering of \<open>e\<close>;
  \<^item> \<open>UnknownModelError m\<close>: \<open>ValueError(f"Unknown model: {model}")\<close>.
  \<open>KeyError\<close> is a failed dict or tokenizer lookup, \<open>UnboundLocalError\<close> the read of a local
  variable that was never assigned.
\<close>

datatype exn =
    APIStatusError pyval string
  | RemoteError string
  | UnsupportedModeError string
  | HistoryExhaustedError exn
  | RateLimitedError exn
  | UnknownModelError string
  | KeyError string
  | UnboundLocalError string

text \<open>The two status codes the handler recognises.\<close>

definition too_large :: "exn \<Rightarrow> bool" where
  "too_large e = (case e of APIStatusError status_code txt \<Rightarrow> status_code = PyStr ''403'' | _ \<Rightarrow> False)"

definition rate_limited :: "exn \<Rightarrow> bool" where
  "rate_limited e = (case e of APIStatusError status_code txt \<Rightarrow> status_code = PyStr ''429'' | _ \<Rightarrow> False)"

definition is_status_error :: "exn \<Rightarrow> bool" where
  "is_status_error e = (case e of APIStatusError status_code txt \<Rightarrow> True | _ \<Rightarrow> False)"

text \<open>The set literal of model names that \<open>__init__\<close> asserts and both loops test.\<close>

definition claude_models :: "string set" where
  "claude_models =
     {''claude-3-opus-20240229'', ''claude-3-sonnet-20240229'', ''claude-3-5-sonnet-20240620''}"

text \<open>
  \<open>config.chat_modes\<close> is a dict of dicts; \<open>config.chat_modes[chat_mode]["prompt_start"]\<close>
  raises \<open>KeyError\<close> when either key is missing.
\<close>

type_synonym chat_modes = "string \<rightharpoonup> (string \<rightharpoonup> string)"

definition prompt_start :: "chat_modes \<Rightarrow> string \<Rightarrow> exn + string" where
  "prompt_start cfg chat_mode =
     (case cfg chat_mode of
        None \<Rightarrow> Inl (KeyError chat_mode)
      | Some entry \<Rightarrow>
          (case entry ''prompt_start'' of
             None \<Rightarrow> Inl (KeyError ''prompt_start'')
           | Some p \<Rightarrow> Inr p))"

section \<open>Helpers\<close>

subsection \<open>\<open>_generate_prompt_messages\<close>\<close>

text \<open>The loop appends two dicts per turn to \<open>messages\<close>; the new message goes last.
  The parameter \<open>chat_mode\<close> is not used by the source either.\<close>

definition generate_prompt_messages :: "string \<Rightarrow> turn list \<Rightarrow> string \<Rightarrow> message list" where
  "generate_prompt_messages message dialog_messages chat_mode =
     foldl (\<lambda>messages dialog_message.
              (messages @ [role_content ''user'' (user dialog_message)])
                @ [role_content ''assistant'' (bot dialog_message)])
           [] dialog_messages
     @ [role_content ''user'' message]"

subsection \<open>\<open>_postprocess_answer\<close>\<close>

text \<open>\<open>str.strip()\<close> without argument: the ASCII whitespace characters are tab, line feed,
  vertical tab, form feed, carriage return, the four separators \<open>0x1c\<close> to \<open>0x1f\<close> and space.\<close>

definition is_space :: "char \<Rightarrow> bool" where
  "is_space c = ((of_char c :: nat) \<in> {9, 10, 11, 12, 13, 28, 29, 30, 31, 32})"

definition strip :: "string \<Rightarrow> string" where
  "strip s = rev (dropWhile is_space (rev (dropWhile is_space s)))"

definition postprocess_answer :: "string \<Rightarrow> string" where
  "postprocess_answer answer = strip answer"

subsection \<open>\<open>_count_tokens_from_messages\<close>\<close>

text \<open>\<open>'claude' in model\<close>: substring test.\<close>

fun starts_with :: "string \<Rightarrow> string \<Rightarrow> bool" where
  "starts_with [] s = True"
| "starts_with (p # ps) [] = False"
| "starts_with (p # ps) (c # cs) = (p = c \<and> starts_with ps cs)"

fun str_in :: "string \<Rightarrow> string \<Rightarrow> bool" where
  "str_in p [] = (p = [])"
| "str_in p (c # cs) = (starts_with p (c # cs) \<or> str_in p cs)"

text \<open>
  \<open>tiktoken\<close> is not part of the repository: \<open>encoding_for_model\<close> is a parameter that maps a
  model name to an encoder (text to token ids), or to \<open>None\<close> where the library has no
  encoding for the name and raises \<open>KeyError\<close>.
\<close>

type_synonym encoder = "string \<Rightarrow> nat list"

type_synonym tokenizers = "string \<Rightarrow> encoder option"

text \<open>The \<open>if\<close>/\<open>elif\<close> chain that sets \<open>tokens_per_message\<close> and \<open>tokens_per_name\<close>.\<close>

definition tokens_per :: "string \<Rightarrow> (int \<times> int) option" where
  "tokens_per model =
     (if model = ''gpt-3.5-turbo-16k'' then Some (4, -1)
      else if model = ''gpt-3.5-turbo'' then Some (4, -1)
      else if model = ''gpt-4'' then Some (3, 1)
      else if model = ''gpt-4-1106-preview'' then Some (3, 1)
      else if model = ''claude-3-opus-20240229'' then Some (3, 1)
      else if model = ''claude-3-sonnet-20240229'' then Some (3, 1)
      else if model = ''claude-3-5-sonnet-20240620'' then Some (3, 1)
      else None)"

text \<open>The inner loop over \<open>message.items()\<close> and the outer loop over \<open>messages\<close>.\<close>

definition count_message :: "encoder \<Rightarrow> int \<Rightarrow> int \<Rightarrow> int \<Rightarrow> message \<Rightarrow> int" where
  "count_message encode tokens_per_message tokens_per_name n_input_tokens message =
     foldl (\<lambda>n (key, val).
              let n1 = n + int (length (encode val))
              in if key = ''name'' then n1 + tokens_per_name else n1)
           (n_input_tokens + tokens_per_message) message"

definition count_tokens_from_messages ::
  "tokenizers \<Rightarrow> message list \<Rightarrow> string \<Rightarrow> string \<Rightarrow> exn + (int \<times> int)" where
  "count_tokens_from_messages encoding_for_model messages answer model =
     (case (if str_in ''claude'' model then encoding_for_model ''gpt-4''
            else encoding_for_model model) of
        None \<Rightarrow> Inl (KeyError (if str_in ''claude'' model then ''gpt-4'' else model))
      | Some encode \<Rightarrow>
          (case tokens_per model of
             None \<Rightarrow> Inl (UnknownModelError model)
           | Some (tokens_per_message, tokens_per_name) \<Rightarrow>
               let n_input_tokens =
                     foldl (count_message encode tokens_per_message tokens_per_name) 0 messages + 2;
                   n_output_tokens = 1 + int (length (encode answer))
               in Inr (n_input_tokens, n_output_tokens)))"

section \<open>\<open>send_message\<close>\<close>

text \<open>
  The remote call \<open>await self.client.messages.create(...)\<close> is an effect: it is a function of
  the state \<open>'s\<close> of the service and of the request, and gives the reply or the exception,
  and the next state. Every call is appended to a trace with its outcome, so that the number
  and the order of the calls can be stated.

  One iteration of \<open>while answer is None\<close> is one unfolding of \<open>send_loop\<close>; the loop has no
  bound, so a run that never leaves it is the value \<open>None\<close>.
\<close>

type_synonym 's create = "'s \<Rightarrow> request \<Rightarrow> (exn + response) \<times> 's"

type_synonym trace = "(request \<times> (exn + response)) list"

type_synonym send_result = "exn + (string \<times> (int \<times> int) \<times> int)"

definition create_args :: "string \<Rightarrow> string \<Rightarrow> message list \<Rightarrow> bool \<Rightarrow> request" where
  "create_args model sys messages strm =
     \<lparr>req_model = model, req_system = sys, req_messages = messages, req_stream = strm,
      req_max_tokens = 4000\<rparr>"

partial_function (option) send_loop ::
  "'s create \<Rightarrow> chat_modes \<Rightarrow> string \<Rightarrow> string \<Rightarrow> string \<Rightarrow> int \<Rightarrow> turn list \<Rightarrow> 's \<Rightarrow> trace
     \<Rightarrow> (send_result \<times> 's \<times> trace) option" where
  "send_loop create cfg self_model message chat_mode n_dialog_messages_before dialog_messages s tr =
     (if self_model \<in> claude_models then
        (case prompt_start cfg chat_mode of
           Inl e \<Rightarrow> Some (Inl e, s, tr)
         | Inr sys \<Rightarrow>
             (let messages = generate_prompt_messages message dialog_messages chat_mode;
                  req = create_args self_model sys messages False
              in case create s req of
                   (Inr r, s') \<Rightarrow>
                     Some (Inr (postprocess_answer (content0_text r),
                                (usage_input_tokens r, usage_output_tokens r),
                                n_dialog_messages_before - int (length dialog_messages)),
                           s', tr @ [(req, Inr r)])
                 | (Inl e, s') \<Rightarrow>
                     (case e of
                        APIStatusError status_code txt \<Rightarrow>
                          if length dialog_messages = 0 then
                            Some (Inl (HistoryExhaustedError e), s', tr @ [(req, Inl e)])
                          else if status_code = PyStr ''403'' then
                            send_loop create cfg self_model message chat_mode
                              n_dialog_messages_before (tl dialog_messages) s' (tr @ [(req, Inl e)])
                          else if status_code = PyStr ''429'' then
                            Some (Inl (RateLimitedError e), s', tr @ [(req, Inl e)])
                          else
                            send_loop create cfg self_model message chat_mode
                              n_dialog_messages_before dialog_messages s' (tr @ [(req, Inl e)])
                      | _ \<Rightarrow> Some (Inl e, s', tr @ [(req, Inl e)]))))
      else Some (Inl (UnknownModelError self_model), s, tr))"

definition send_message ::
  "'s create \<Rightarrow> chat_modes \<Rightarrow> string \<Rightarrow> string \<Rightarrow> turn list \<Rightarrow> string \<Rightarrow> 's
     \<Rightarrow> (send_result \<times> 's \<times> trace) option" where
  "send_message create cfg self_model message dialog_messages chat_mode s =
     (if chat_mode \<notin> dom cfg then Some (Inl (UnsupportedModeError chat_mode), s, [])
      else send_loop create cfg self_model message chat_mode
             (int (length dialog_messages)) dialog_messages s [])"

declare send_loop.simps [code]

section \<open>\<open>send_message_stream\<close>\<close>

text \<open>
  With \<open>stream=True\<close> the remote call gives an asynchronous iterator \<open>r_gen\<close>. The code reads
  of each item its \<open>type\<close> and, by type, \<open>delta.text\<close> or \<open>usage.output_tokens\<close>; items of any
  other type are skipped. The iteration itself can raise: a streamed reply is the list of
  its items and the exception that ends it, if any.
\<close>

datatype event = ContentBlockDelta string | MessageDelta int | OtherEvent string

type_synonym stream_reply = "event list \<times> exn option"

type_synonym 's create_stream = "'s \<Rightarrow> request \<Rightarrow> (exn + stream_reply) \<times> 's"

type_synonym stream_trace = "(request \<times> (exn + stream_reply)) list"

text \<open>An element the generator yields: status, answer so far, token counts, removed turns.\<close>

type_synonym item = "string \<times> string \<times> (int \<times> int) \<times> int"

text \<open>The three local variables that are assigned inside the \<open>async for\<close> only; \<open>None\<close> is
  "not yet assigned".\<close>

record locals =
  n_input_tokens :: "int option"
  n_output_tokens :: "int option"
  n_first_dialog_messages_removed :: "int option"

definition unassigned :: locals where
  "unassigned =
     \<lparr>n_input_tokens = None, n_output_tokens = None, n_first_dialog_messages_removed = None\<rparr>"

text \<open>
  The body of \<open>async for r_item in r_gen\<close>, over the items that arrive. The result is the
  exception raised inside the body (by the token accounting), the answer buffer, the locals
  and the elements yielded so far.
\<close>

fun stream_items ::
  "tokenizers \<Rightarrow> message list \<Rightarrow> string \<Rightarrow> int \<Rightarrow> turn list \<Rightarrow> event list \<Rightarrow> string \<Rightarrow> locals
     \<Rightarrow> item list \<Rightarrow> exn option \<times> string \<times> locals \<times> item list" where
  "stream_items efm messages self_model n_before dialog_messages [] answer v out =
     (None, answer, v, out)"
| "stream_items efm messages self_model n_before dialog_messages (r_item # r_gen) answer v out =
     (case r_item of
        ContentBlockDelta delta_text \<Rightarrow>
          (let answer1 = answer @ delta_text
           in case count_tokens_from_messages efm messages answer1 self_model of
                Inl e \<Rightarrow> (Some e, answer1, v, out)
              | Inr (n_in, n_out) \<Rightarrow>
                  (let removed = n_before - int (length dialog_messages)
                   in stream_items efm messages self_model n_before dialog_messages r_gen answer1
                        \<lparr>n_input_tokens = Some n_in, n_output_tokens = Some n_out,
                         n_first_dialog_messages_removed = Some removed\<rparr>
                        (out @ [(''not_finished'', answer1, (n_in, n_out), removed)])))
      | MessageDelta usage_output \<Rightarrow>
          (case count_tokens_from_messages efm messages answer self_model of
             Inl e \<Rightarrow> (Some e, answer, v, out)
           | Inr (n_in, n_out) \<Rightarrow>
               (let removed = n_before - int (length dialog_messages)
                in stream_items efm messages self_model n_before dialog_messages r_gen answer
                     \<lparr>n_input_tokens = Some n_in, n_output_tokens = Some usage_output,
                      n_first_dialog_messages_removed = Some removed\<rparr>
                     (out @ [(''not_finished'', answer, (n_in, usage_output), removed)])))
      | OtherEvent ty \<Rightarrow>
          stream_items efm messages self_model n_before dialog_messages r_gen answer v out)"

text \<open>
  The \<open>try\<close> block of one iteration of the loop: the exception that leaves it (\<open>None\<close> when
  it runs to its end), and the variables, yielded elements, service state and trace after it.
  \<open>answer = ""\<close> is assigned once \<open>create\<close> has returned, before the first item is read.
\<close>

definition stream_try ::
  "'s create_stream \<Rightarrow> tokenizers \<Rightarrow> chat_modes \<Rightarrow> string \<Rightarrow> string \<Rightarrow> string \<Rightarrow> int \<Rightarrow> turn list
     \<Rightarrow> string option \<Rightarrow> locals \<Rightarrow> item list \<Rightarrow> 's \<Rightarrow> stream_trace
     \<Rightarrow> exn option \<times> string option \<times> locals \<times> item list \<times> 's \<times> stream_trace" where
  "stream_try create efm cfg self_model message chat_mode n_before dialog_messages answer v out s tr =
     (if self_model \<in> claude_models then
        (case prompt_start cfg chat_mode of
           Inl e \<Rightarrow> (Some e, answer, v, out, s, tr)
         | Inr sys \<Rightarrow>
             (let messages = generate_prompt_messages message dialog_messages chat_mode;
                  req = create_args self_model sys messages True
              in case create s req of
                   (Inl e, s') \<Rightarrow> (Some e, answer, v, out, s', tr @ [(req, Inl e)])
                 | (Inr (r_gen, raised), s') \<Rightarrow>
                     (case stream_items efm messages self_model n_before dialog_messages
                             r_gen [] v out of
                        (Some e, answer1, v1, out1) \<Rightarrow>
                          (Some e, Some answer1, v1, out1, s', tr @ [(req, Inr (r_gen, raised))])
                      | (None, answer1, v1, out1) \<Rightarrow>
                          (case raised of
                             Some e \<Rightarrow>
                               (Some e, Some answer1, v1, out1, s',
                                tr @ [(req, Inr (r_gen, raised))])
                           | None \<Rightarrow>
                               (None, Some (postprocess_answer answer1), v1, out1, s',
                                tr @ [(req, Inr (r_gen, raised))])))))
      else (Some (UnknownModelError self_model), answer, v, out, s, tr))"

text \<open>The last line, \<open>yield "finished", answer, (n_input_tokens, n_output_tokens),
  n_first_dialog_messages_removed\<close>: reading a local that was never assigned raises.\<close>

definition final_yield :: "string \<Rightarrow> locals \<Rightarrow> item list \<Rightarrow> item list \<times> exn option" where
  "final_yield answer v out =
     (case n_input_tokens v of
        None \<Rightarrow> (out, Some (UnboundLocalError ''n_input_tokens''))
      | Some n_in \<Rightarrow>
          (case n_output_tokens v of
             None \<Rightarrow> (out, Some (UnboundLocalError ''n_output_tokens''))
           | Some n_out \<Rightarrow>
               (case n_first_dialog_messages_removed v of
                  None \<Rightarrow> (out, Some (UnboundLocalError ''n_first_dialog_messages_removed''))
                | Some removed \<Rightarrow>
                    (out @ [(''finished'', answer, (n_in, n_out), removed)], None))))"

text \<open>
  \<open>while answer is None\<close>, with the \<open>except anthropic.APIStatusError\<close> clause after the
  \<open>try\<close> block. The result is the list of the yielded elements, the exception the generator
  ends with (\<open>None\<close>: it is exhausted normally), the service state and the trace of calls.
\<close>

partial_function (option) stream_loop ::
  "'s create_stream \<Rightarrow> tokenizers \<Rightarrow> chat_modes \<Rightarrow> string \<Rightarrow> string \<Rightarrow> string \<Rightarrow> int \<Rightarrow> turn list
     \<Rightarrow> string option \<Rightarrow> locals \<Rightarrow> item list \<Rightarrow> 's \<Rightarrow> stream_trace
     \<Rightarrow> (item list \<times> exn option \<times> 's \<times> stream_trace) option" where
  "stream_loop create efm cfg self_model message chat_mode n_before dialog_messages answer v out s tr =
     (case answer of
        Some final \<Rightarrow>
          (case final_yield final v out of (out1, raised) \<Rightarrow> Some (out1, raised, s, tr))
      | None \<Rightarrow>
          (case stream_try create efm cfg self_model message chat_mode n_before dialog_messages
                  answer v out s tr of
             (None, answer1, v1, out1, s1, tr1) \<Rightarrow>
               stream_loop create efm cfg self_model message chat_mode n_before dialog_messages
                 answer1 v1 out1 s1 tr1
           | (Some e, answer1, v1, out1, s1, tr1) \<Rightarrow>
               (case e of
                  APIStatusError status_code txt \<Rightarrow>
                    if length dialog_messages = 0 then
                      Some (out1, Some (HistoryExhaustedError e), s1, tr1)
                    else if status_code = PyStr ''403'' then
                      stream_loop create efm cfg self_model message chat_mode n_before
                        (tl dialog_messages) answer1 v1 out1 s1 tr1
                    else if status_code = PyStr ''429'' then
                      Some (out1, Some (RateLimitedError e), s1, tr1)
                    else
                      stream_loop create efm cfg self_model message chat_mode n_before
                        dialog_messages answer1 v1 out1 s1 tr1
                | _ \<Rightarrow> Some (out1, Some e, s1, tr1))))"

declare stream_loop.simps [code]

definition send_message_stream ::
  "'s create_stream \<Rightarrow> tokenizers \<Rightarrow> chat_modes \<Rightarrow> string \<Rightarrow> string \<Rightarrow> turn list \<Rightarrow> string \<Rightarrow> 's
     \<Rightarrow> (item list \<times> exn option \<times> 's \<times> stream_trace) option" where
  "send_message_stream create efm cfg self_model message dialog_messages chat_mode s =
     (if chat_mode \<notin> dom cfg then Some ([], Some (UnsupportedModeError chat_mode), s, [])
      else stream_loop create efm cfg self_model message chat_mode
             (int (length dialog_messages)) dialog_messages None unassigned [] s [])"

section \<open>The history as an object\<close>

text \<open>
  In the definitions above the history is a value. The caller of the Python functions passes
  a reference to a list object, and what happens to that object is a question about the
  store. Here the list objects are kept in a store, \<open>dialog_messages\<close> is a reference, and
  the two loops are written once more over it: \<open>len\<close> and the iteration in
  \<open>_generate_prompt_messages\<close> read the object; the slice \<open>dialog_messages[1:]\<close> builds a new
  list object, at an address not used before, and the assignment rebinds the local variable
  to it. The source has no statement that writes to a list passed in.
\<close>

record store =
  objs :: "nat \<Rightarrow> turn list"
  next_free :: nat

definition slice_from_1 :: "store \<Rightarrow> nat \<Rightarrow> nat \<times> store" where
  "slice_from_1 h a =
     (next_free h,
      h\<lparr>objs := (objs h)(next_free h := tl (objs h a)), next_free := Suc (next_free h)\<rparr>)"

partial_function (option) send_loop_st ::
  "'s create \<Rightarrow> chat_modes \<Rightarrow> string \<Rightarrow> string \<Rightarrow> string \<Rightarrow> int \<Rightarrow> nat \<Rightarrow> store \<Rightarrow> 's \<Rightarrow> trace
     \<Rightarrow> (send_result \<times> store \<times> 's \<times> trace) option" where
  "send_loop_st create cfg self_model message chat_mode n_dialog_messages_before dialog_messages h s tr =
     (if self_model \<in> claude_models then
        (case prompt_start cfg chat_mode of
           Inl e \<Rightarrow> Some (Inl e, h, s, tr)
         | Inr sys \<Rightarrow>
             (let messages = generate_prompt_messages message (objs h dialog_messages) chat_mode;
                  req = create_args self_model sys messages False
              in case create s req of
                   (Inr r, s') \<Rightarrow>
                     Some (Inr (postprocess_answer (content0_text r),
                                (usage_input_tokens r, usage_output_tokens r),
                                n_dialog_messages_before - int (length (objs h dialog_messages))),
                           h, s', tr @ [(req, Inr r)])
                 | (Inl e, s') \<Rightarrow>
                     (case e of
                        APIStatusError status_code txt \<Rightarrow>
                          if length (objs h dialog_messages) = 0 then
                            Some (Inl (HistoryExhaustedError e), h, s', tr @ [(req, Inl e)])
                          else if status_code = PyStr ''403'' then
                            (case slice_from_1 h dialog_messages of
                               (sliced, h') \<Rightarrow>
                                 send_loop_st create cfg self_model message chat_mode
                                   n_dialog_messages_before sliced h' s' (tr @ [(req, Inl e)]))
                          else if status_code = PyStr ''429'' then
                            Some (Inl (RateLimitedError e), h, s', tr @ [(req, Inl e)])
                          else
                            send_loop_st create cfg self_model message chat_mode
                              n_dialog_messages_before dialog_messages h s' (tr @ [(req, Inl e)])
                      | _ \<Rightarrow> Some (Inl e, h, s', tr @ [(req, Inl e)]))))
      else Some (Inl (UnknownModelError self_model), h, s, tr))"

declare send_loop_st.simps [code]

definition send_message_st ::
  "'s create \<Rightarrow> chat_modes \<Rightarrow> string \<Rightarrow> string \<Rightarrow> nat \<Rightarrow> string \<Rightarrow> store \<Rightarrow> 's
     \<Rightarrow> (send_result \<times> store \<times> 's \<times> trace) option" where
  "send_message_st create cfg self_model message dialog_messages chat_mode h s =
     (if chat_mode \<notin> dom cfg then Some (Inl (UnsupportedModeError chat_mode), h, s, [])
      else send_loop_st create cfg self_model message chat_mode
             (int (length (objs h dialog_messages))) dialog_messages h s [])"

partial_function (option) stream_loop_st ::
  "'s create_stream \<Rightarrow> tokenizers \<Rightarrow> chat_modes \<Rightarrow> string \<Rightarrow> string \<Rightarrow> string \<Rightarrow> int \<Rightarrow> nat
     \<Rightarrow> store \<Rightarrow> string option \<Rightarrow> locals \<Rightarrow> item list \<Rightarrow> 's \<Rightarrow> stream_trace
     \<Rightarrow> (item list \<times> exn option \<times> store \<times> 's \<times> stream_trace) option" where
  "stream_loop_st create efm cfg self_model message chat_mode n_before dialog_messages h answer v out s tr =
     (case answer of
        Some final \<Rightarrow>
          (case final_yield final v out of (out1, raised) \<Rightarrow> Some (out1, raised, h, s, tr))
      | None \<Rightarrow>
          (case stream_try create efm cfg self_model message chat_mode n_before
                  (objs h dialog_messages) answer v out s tr of
             (None, answer1, v1, out1, s1, tr1) \<Rightarrow>
               stream_loop_st create efm cfg self_model message chat_mode n_before dialog_messages h
                 answer1 v1 out1 s1 tr1
           | (Some e, answer1, v1, out1, s1, tr1) \<Rightarrow>
               (case e of
                  APIStatusError status_code txt \<Rightarrow>
                    if length (objs h dialog_messages) = 0 then
                      Some (out1, Some (HistoryExhaustedError e), h, s1, tr1)
                    else if status_code = PyStr ''403'' then
                      (case slice_from_1 h dialog_messages of
                         (sliced, h') \<Rightarrow>
                           stream_loop_st create efm cfg self_model message chat_mode n_before
                             sliced h' answer1 v1 out1 s1 tr1)
                    else if status_code = PyStr ''429'' then
                      Some (out1, Some (RateLimitedError e), h, s1, tr1)
                    else
                      stream_loop_st create efm cfg self_model message chat_mode n_before
                        dialog_messages h answer1 v1 out1 s1 tr1
                | _ \<Rightarrow> Some (out1, Some e, h, s1, tr1))))"

declare stream_loop_st.simps [code]

definition send_message_stream_st ::
  "'s create_stream \<Rightarrow> tokenizers \<Rightarrow> chat_modes \<Rightarrow> string \<Rightarrow> string \<Rightarrow> nat \<Rightarrow> string \<Rightarrow> store
     \<Rightarrow> 's \<Rightarrow> (item list \<times> exn option \<times> store \<times> 's \<times> stream_trace) option" where
  "send_message_stream_st create efm cfg self_model message dialog_messages chat_mode h s =
     (if chat_mode \<notin> dom cfg then Some ([], Some (UnsupportedModeError chat_mode), h, s, [])
      else stream_loop_st create efm cfg self_model message chat_mode
             (int (length (objs h dialog_messages))) dialog_messages h None unassigned [] s [])"

section \<open>Notions used in the statements\<close>

text \<open>The role of a message dict; a call of the trace that failed, and one that failed with
  the status the handler takes for "too many tokens"; what a run of \<open>send_loop\<close> that
  returns has added to the trace.\<close>

definition role_of :: "message \<Rightarrow> string option" where
  "role_of m = map_of m ''role''"

definition failed_call :: "request \<times> (exn + 'r) \<Rightarrow> bool" where
  "failed_call c = (case snd c of Inl e \<Rightarrow> True | Inr r \<Rightarrow> False)"

definition too_large_call :: "request \<times> (exn + 'r) \<Rightarrow> bool" where
  "too_large_call c = (case snd c of Inl e \<Rightarrow> too_large e | Inr r \<Rightarrow> False)"

definition send_post ::
  "string \<Rightarrow> string \<Rightarrow> string \<Rightarrow> string \<Rightarrow> int \<Rightarrow> turn list \<Rightarrow> trace \<Rightarrow> send_result \<times> 's \<times> trace \<Rightarrow> bool" where
  "send_post self_model sys message chat_mode nb dm tr y =
     (case y of (res, s', tr') \<Rightarrow>
        \<exists>rest. tr' = tr @ rest \<and>
          (\<forall>c\<in>set rest. \<exists>k\<le>length dm.
              fst c = create_args self_model sys
                        (generate_prompt_messages message (drop k dm) chat_mode) False) \<and>
          (case res of
             Inl e \<Rightarrow> True
           | Inr (a, toks, removed) \<Rightarrow>
               rest \<noteq> [] \<and> (\<forall>c\<in>set (butlast rest). failed_call c) \<and>
               (\<exists>r. snd (last rest) = Inr r \<and> a = postprocess_answer (content0_text r) \<and>
                    toks = (usage_input_tokens r, usage_output_tokens r)) \<and>
               length (filter too_large_call rest) \<le> length dm \<and>
               removed = nb - int (length dm) + int (length (filter too_large_call rest)) \<and>
               fst (last rest) =
                 create_args self_model sys
                   (generate_prompt_messages message
                      (drop (length (filter too_large_call rest)) dm) chat_mode) False))"








text \<open>A later store extends an earlier one: the objects of the earlier store are unchanged.\<close>

definition extends :: "store \<Rightarrow> store \<Rightarrow> bool" where
  "extends h h' = (next_free h \<le> next_free h' \<and> (\<forall>b<next_free h. objs h' b = objs h b))"

section \<open>Example data\<close>

text \<open>A configuration with one mode, a model name of the set, three turns, and services
  whose state counts the calls they have received.\<close>

definition example_cfg :: chat_modes where
  "example_cfg = [''assistant'' \<mapsto> [''prompt_start'' \<mapsto> ''Be helpful.'']]"

definition example_model :: string where
  "example_model = ''claude-3-5-sonnet-20240620''"

definition example_history :: "turn list" where
  "example_history =
     [\<lparr>user = ''one'', bot = ''1''\<rparr>, \<lparr>user = ''two'', bot = ''2''\<rparr>,
      \<lparr>user = ''three'', bot = ''3''\<rparr>]"

definition example_request :: "turn list \<Rightarrow> bool \<Rightarrow> request" where
  "example_request dm strm =
     create_args example_model ''Be helpful.''
       (generate_prompt_messages ''hello'' dm ''assistant'') strm"

definition status_error :: "string \<Rightarrow> exn" where
  "status_error code = APIStatusError (PyStr code) ''refused''"

definition service_fails :: "exn \<Rightarrow> nat \<Rightarrow> request \<Rightarrow> (exn + 'r) \<times> nat" where
  "service_fails e s req = (Inl e, Suc s)"

definition example_response :: response where
  "example_response =
     \<lparr>content0_text = ''  hi there  '', usage_input_tokens = 5, usage_output_tokens = 3\<rparr>"

text \<open>A service that accepts a request of at most three messages (one turn and the new
  message) and reports any longer one as too large.\<close>

definition service_fits_one_turn :: "nat create" where
  "service_fits_one_turn s req =
     (if length (req_messages req) \<le> 3 then (Inr example_response, Suc s)
      else (Inl (status_error ''403''), Suc s))"

text \<open>A tokenizer that knows the \<open>gpt-4\<close> encoding only and makes one token of each character.\<close>

definition example_tokenizers :: tokenizers where
  "example_tokenizers name = (if name = ''gpt-4'' then Some (map of_char) else None)"

text \<open>A service that answers every streamed call with the same items and the same end.\<close>

definition service_streams :: "event list \<Rightarrow> exn option \<Rightarrow> nat create_stream" where
  "service_streams r_gen ended s req = (Inr (r_gen, ended), Suc s)"

text \<open>A store that holds the example history at address 0 and the empty history at
  address 1.\<close>

definition example_store :: store where
  "example_store = \<lparr>objs = (\<lambda>a. [])(0 := example_history), next_free = 2\<rparr>"

section \<open>The helpers\<close>

lemma foldl_append_acc:
  "foldl (\<lambda>ms d. (ms @ [f d]) @ [g d]) acc ds = acc @ foldl (\<lambda>ms d. (ms @ [f d]) @ [g d]) [] ds"
proof (induction ds arbitrary: acc)
  case Nil
  show ?case by simp
next
  case (Cons d ds)
  have "foldl (\<lambda>ms d. (ms @ [f d]) @ [g d]) (acc @ [f d, g d]) ds
          = (acc @ [f d, g d]) @ foldl (\<lambda>ms d. (ms @ [f d]) @ [g d]) [] ds"
    by (rule Cons.IH)
  moreover have "foldl (\<lambda>ms d. (ms @ [f d]) @ [g d]) [f d, g d] ds
          = [f d, g d] @ foldl (\<lambda>ms d. (ms @ [f d]) @ [g d]) [] ds"
    by (rule Cons.IH)
  ultimately show ?case by simp
qed

lemma generate_prompt_messages_Nil:
  "generate_prompt_messages message [] chat_mode = [role_content ''user'' message]"
  by (simp add: generate_prompt_messages_def)

lemma generate_prompt_messages_Cons:
  "generate_prompt_messages message (d # ds) chat_mode =
     role_content ''user'' (user d) # role_content ''assistant'' (bot d)
       # generate_prompt_messages message ds chat_mode"
  unfolding generate_prompt_messages_def
  using foldl_append_acc [of "\<lambda>d. role_content ''user'' (user d)"
      "\<lambda>d. role_content ''assistant'' (bot d)" "[role_content ''user'' (user d), role_content ''assistant'' (bot d)]" ds]
  by simp

lemma length_generate_prompt_messages:
  "length (generate_prompt_messages message ds chat_mode) = 2 * length ds + 1"
  by (induction ds) (simp_all add: generate_prompt_messages_Nil generate_prompt_messages_Cons)

lemma nth_generate_prompt_messages:
  "i < length ds \<Longrightarrow>
     generate_prompt_messages message ds chat_mode ! (2 * i) = role_content ''user'' (user (ds ! i)) \<and>
     generate_prompt_messages message ds chat_mode ! (2 * i + 1) = role_content ''assistant'' (bot (ds ! i))"
proof (induction ds arbitrary: i)
  case Nil
  then show ?case by simp
next
  case (Cons d ds)
  show ?case
  proof (cases i)
    case 0
    then show ?thesis by (simp add: generate_prompt_messages_Cons)
  next
    case (Suc j)
    with Cons.prems have "j < length ds" by simp
    from Cons.IH [OF this] Suc show ?thesis
      by (simp add: generate_prompt_messages_Cons)
  qed
qed

lemma last_generate_prompt_messages:
  "generate_prompt_messages message ds chat_mode ! (2 * length ds) = role_content ''user'' message"
  by (induction ds) (simp_all add: generate_prompt_messages_Nil generate_prompt_messages_Cons)

lemma roles_generate_prompt_messages:
  "j < 2 * length ds + 1 \<Longrightarrow>
     role_of (generate_prompt_messages message ds chat_mode ! j) = Some (if even j then ''user'' else ''assistant'')"
proof (cases "even j")
  case True
  assume j: "j < 2 * length ds + 1"
  from True obtain i where i: "j = 2 * i" by (auto elim: evenE)
  show ?thesis
  proof (cases "i < length ds")
    case True
    from nth_generate_prompt_messages [OF this, of message chat_mode] i show ?thesis
      by (simp add: role_of_def role_content_def)
  next
    case False
    with j i have "i = length ds" by simp
    with i last_generate_prompt_messages [of message ds chat_mode] show ?thesis
      by (simp add: role_of_def role_content_def)
  qed
next
  case False
  assume j: "j < 2 * length ds + 1"
  from False obtain i where i: "j = 2 * i + 1" by (auto elim: oddE)
  with j have "i < length ds" by simp
  from nth_generate_prompt_messages [OF this, of message chat_mode] i False show ?thesis
    by (simp add: role_of_def role_content_def)
qed





section \<open>The retry loop of \<open>send_message\<close>\<close>

lemma send_post_no_call: "send_post m sys msg mode nb dm tr (Inl e, s, tr)"
  by (simp add: send_post_def)

lemma send_post_raise:
  "send_post m sys msg mode nb dm tr
     (Inl e', s', tr @ [(create_args m sys (generate_prompt_messages msg dm mode) False, out)])"
  unfolding send_post_def by (auto intro: exI [of _ 0])

lemma send_post_success:
  "send_post m sys msg mode nb dm tr
     (Inr (postprocess_answer (content0_text r), (usage_input_tokens r, usage_output_tokens r),
           nb - int (length dm)), s',
      tr @ [(create_args m sys (generate_prompt_messages msg dm mode) False, Inr r)])"
  unfolding send_post_def by (auto simp: too_large_call_def intro: exI [of _ 0])

lemma send_post_drop:
  assumes "dm \<noteq> []" and "too_large e"
    and "send_post m sys msg mode nb (tl dm)
           (tr @ [(create_args m sys (generate_prompt_messages msg dm mode) False, Inl e)]) y"
  shows "send_post m sys msg mode nb dm tr y"
proof -
  obtain res s' tr' where y: "y = (res, s', tr')" by (cases y)
  let ?c = "(create_args m sys (generate_prompt_messages msg dm mode) False, Inl e :: exn + response)"
  from assms(3) y obtain rest where
    tr': "tr' = (tr @ [?c]) @ rest" and
    reqs: "\<forall>c\<in>set rest. \<exists>k\<le>length (tl dm).
              fst c = create_args m sys (generate_prompt_messages msg (drop k (tl dm)) mode) False" and
    ok: "case res of
             Inl e \<Rightarrow> True
           | Inr (a, toks, removed) \<Rightarrow>
               rest \<noteq> [] \<and> (\<forall>c\<in>set (butlast rest). failed_call c) \<and>
               (\<exists>r. snd (last rest) = Inr r \<and> a = postprocess_answer (content0_text r) \<and>
                    toks = (usage_input_tokens r, usage_output_tokens r)) \<and>
               length (filter too_large_call rest) \<le> length (tl dm) \<and>
               removed = nb - int (length (tl dm)) + int (length (filter too_large_call rest)) \<and>
               fst (last rest) =
                 create_args m sys
                   (generate_prompt_messages msg
                      (drop (length (filter too_large_call rest)) (tl dm)) mode) False"
    unfolding send_post_def by auto
  have c: "too_large_call ?c" "failed_call ?c"
    using assms(2) by (simp_all add: too_large_call_def failed_call_def)
  have 1: "tr' = tr @ (?c # rest)" using tr' by simp
  have 2: "\<forall>c\<in>set (?c # rest). \<exists>k\<le>length dm.
              fst c = create_args m sys (generate_prompt_messages msg (drop k dm) mode) False"
  proof
    fix x assume "x \<in> set (?c # rest)"
    then consider "x = ?c" | "x \<in> set rest" by auto
    then show "\<exists>k\<le>length dm. fst x = create_args m sys (generate_prompt_messages msg (drop k dm) mode) False"
    proof cases
      case 1
      then show ?thesis by (auto intro: exI [of _ 0])
    next
      case 2
      with reqs obtain k where k: "k \<le> length (tl dm)"
        "fst x = create_args m sys (generate_prompt_messages msg (drop k (tl dm)) mode) False"
        by blast
      from assms(1) k(1) have "Suc k \<le> length dm" by (cases dm) simp_all
      moreover from k(2) have "fst x = create_args m sys (generate_prompt_messages msg (drop (Suc k) dm) mode) False"
        by (simp add: drop_Suc)
      ultimately show ?thesis by blast
    qed
  qed
  have 3: "case res of
             Inl e \<Rightarrow> True
           | Inr (a, toks, removed) \<Rightarrow>
               (?c # rest) \<noteq> [] \<and> (\<forall>c\<in>set (butlast (?c # rest)). failed_call c) \<and>
               (\<exists>r. snd (last (?c # rest)) = Inr r \<and> a = postprocess_answer (content0_text r) \<and>
                    toks = (usage_input_tokens r, usage_output_tokens r)) \<and>
               length (filter too_large_call (?c # rest)) \<le> length dm \<and>
               removed = nb - int (length dm) + int (length (filter too_large_call (?c # rest))) \<and>
               fst (last (?c # rest)) =
                 create_args m sys
                   (generate_prompt_messages msg
                      (drop (length (filter too_large_call (?c # rest))) dm) mode) False"
  proof (cases res)
    case (Inl e)
    then show ?thesis by simp
  next
    case (Inr succ)
    obtain a toks removed where succ: "succ = (a, toks, removed)" by (cases succ)
    from assms(1) obtain d ds where dm: "dm = d # ds" by (cases dm) simp_all
    from ok Inr succ have
      r1: "rest \<noteq> []" and
      r2: "\<forall>c\<in>set (butlast rest). failed_call c" and
      r3: "\<exists>r. snd (last rest) = Inr r \<and> a = postprocess_answer (content0_text r) \<and>
                    toks = (usage_input_tokens r, usage_output_tokens r)" and
      r4: "length (filter too_large_call rest) \<le> length (tl dm)" and
      r5: "removed = nb - int (length (tl dm)) + int (length (filter too_large_call rest))" and
      r6: "fst (last rest) =
                 create_args m sys
                   (generate_prompt_messages msg
                      (drop (length (filter too_large_call rest)) (tl dm)) mode) False"
      by simp_all
    have f: "filter too_large_call (?c # rest) = ?c # filter too_large_call rest"
      using c(1) by simp
    have b: "butlast (?c # rest) = ?c # butlast rest" using r1 by simp
    have l: "last (?c # rest) = last rest" using r1 by simp
    have g1: "\<forall>c\<in>set (butlast (?c # rest)). failed_call c"
      unfolding b using r2 c(2) by simp
    have g2: "\<exists>r. snd (last (?c # rest)) = Inr r \<and> a = postprocess_answer (content0_text r) \<and>
                    toks = (usage_input_tokens r, usage_output_tokens r)"
      unfolding l by (rule r3)
    have g3: "length (filter too_large_call (?c # rest)) \<le> length dm"
      unfolding f using r4 by (simp add: dm)
    have g4: "removed = nb - int (length dm) + int (length (filter too_large_call (?c # rest)))"
      unfolding f using r5 by (simp add: dm)
    have g5: "fst (last (?c # rest)) =
                 create_args m sys
                   (generate_prompt_messages msg
                      (drop (length (filter too_large_call (?c # rest))) dm) mode) False"
      unfolding f l using r6 by (simp add: dm)
    from g1 g2 g3 g4 g5 Inr succ show ?thesis by simp
  qed
  from 1 2 3 y show ?thesis unfolding send_post_def by blast
qed

lemma send_post_same:
  assumes "\<not> too_large e"
    and "send_post m sys msg mode nb dm
           (tr @ [(create_args m sys (generate_prompt_messages msg dm mode) False, Inl e)]) y"
  shows "send_post m sys msg mode nb dm tr y"
proof -
  obtain res s' tr' where y: "y = (res, s', tr')" by (cases y)
  let ?c = "(create_args m sys (generate_prompt_messages msg dm mode) False, Inl e :: exn + response)"
  from assms(2) y obtain rest where
    tr': "tr' = (tr @ [?c]) @ rest" and
    reqs: "\<forall>c\<in>set rest. \<exists>k\<le>length dm.
              fst c = create_args m sys (generate_prompt_messages msg (drop k dm) mode) False" and
    ok: "case res of
             Inl e \<Rightarrow> True
           | Inr (a, toks, removed) \<Rightarrow>
               rest \<noteq> [] \<and> (\<forall>c\<in>set (butlast rest). failed_call c) \<and>
               (\<exists>r. snd (last rest) = Inr r \<and> a = postprocess_answer (content0_text r) \<and>
                    toks = (usage_input_tokens r, usage_output_tokens r)) \<and>
               length (filter too_large_call rest) \<le> length dm \<and>
               removed = nb - int (length dm) + int (length (filter too_large_call rest)) \<and>
               fst (last rest) =
                 create_args m sys
                   (generate_prompt_messages msg
                      (drop (length (filter too_large_call rest)) dm) mode) False"
    unfolding send_post_def by auto
  have c: "\<not> too_large_call ?c" "failed_call ?c"
    using assms(1) by (simp_all add: too_large_call_def failed_call_def)
  have 1: "tr' = tr @ (?c # rest)" using tr' by simp
  have 2: "\<forall>c\<in>set (?c # rest). \<exists>k\<le>length dm.
              fst c = create_args m sys (generate_prompt_messages msg (drop k dm) mode) False"
  proof
    fix x assume "x \<in> set (?c # rest)"
    then consider "x = ?c" | "x \<in> set rest" by auto
    then show "\<exists>k\<le>length dm. fst x = create_args m sys (generate_prompt_messages msg (drop k dm) mode) False"
    proof cases
      case 1
      then show ?thesis by (auto intro: exI [of _ 0])
    next
      case 2
      with reqs show ?thesis by blast
    qed
  qed
  have 3: "case res of
             Inl e \<Rightarrow> True
           | Inr (a, toks, removed) \<Rightarrow>
               (?c # rest) \<noteq> [] \<and> (\<forall>c\<in>set (butlast (?c # rest)). failed_call c) \<and>
               (\<exists>r. snd (last (?c # rest)) = Inr r \<and> a = postprocess_answer (content0_text r) \<and>
                    toks = (usage_input_tokens r, usage_output_tokens r)) \<and>
               length (filter too_large_call (?c # rest)) \<le> length dm \<and>
               removed = nb - int (length dm) + int (length (filter too_large_call (?c # rest))) \<and>
               fst (last (?c # rest)) =
                 create_args m sys
                   (generate_prompt_messages msg
                      (drop (length (filter too_large_call (?c # rest))) dm) mode) False"
  proof (cases res)
    case (Inl e)
    then show ?thesis by simp
  next
    case (Inr succ)
    obtain a toks removed where succ: "succ = (a, toks, removed)" by (cases succ)
    from ok Inr succ have
      r1: "rest \<noteq> []" and
      r2: "\<forall>c\<in>set (butlast rest). failed_call c" and
      r3: "\<exists>r. snd (last rest) = Inr r \<and> a = postprocess_answer (content0_text r) \<and>
                    toks = (usage_input_tokens r, usage_output_tokens r)" and
      r4: "length (filter too_large_call rest) \<le> length dm" and
      r5: "removed = nb - int (length dm) + int (length (filter too_large_call rest))" and
      r6: "fst (last rest) =
                 create_args m sys
                   (generate_prompt_messages msg
                      (drop (length (filter too_large_call rest)) dm) mode) False"
      by simp_all
    have f: "filter too_large_call (?c # rest) = filter too_large_call rest"
      using c(1) by simp
    have b: "butlast (?c # rest) = ?c # butlast rest" using r1 by simp
    have l: "last (?c # rest) = last rest" using r1 by simp
    have g1: "\<forall>c\<in>set (butlast (?c # rest)). failed_call c"
      unfolding b using r2 c(2) by simp
    have g2: "\<exists>r. snd (last (?c # rest)) = Inr r \<and> a = postprocess_answer (content0_text r) \<and>
                    toks = (usage_input_tokens r, usage_output_tokens r)"
      unfolding l by (rule r3)
    have g3: "length (filter too_large_call (?c # rest)) \<le> length dm"
      unfolding f by (rule r4)
    have g4: "removed = nb - int (length dm) + int (length (filter too_large_call (?c # rest)))"
      unfolding f by (rule r5)
    have g5: "fst (last (?c # rest)) =
                 create_args m sys
                   (generate_prompt_messages msg
                      (drop (length (filter too_large_call (?c # rest))) dm) mode) False"
      unfolding f l by (rule r6)
    from g1 g2 g3 g4 g5 Inr succ show ?thesis by simp
  qed
  from 1 2 3 y show ?thesis unfolding send_post_def by blast
qed

lemma send_loop_post:
  assumes "send_loop create cfg self_model message chat_mode nb dm s tr = Some y"
  shows "prompt_start cfg chat_mode = Inr sys \<longrightarrow> send_post self_model sys message chat_mode nb dm tr y"
proof (rule send_loop.raw_induct
    [where P = "\<lambda>create cfg self_model message chat_mode nb dm s tr y.
        prompt_start cfg chat_mode = Inr sys \<longrightarrow>
        send_post self_model sys message chat_mode nb dm tr y", OF _ assms])
  fix send_loop :: "'a create \<Rightarrow> chat_modes \<Rightarrow> string \<Rightarrow> string \<Rightarrow> string \<Rightarrow> int \<Rightarrow> turn list \<Rightarrow> 'a \<Rightarrow> trace
     \<Rightarrow> (send_result \<times> 'a \<times> trace) option"
    and create :: "'a create" and cfg self_model message chat_mode nb dm s tr y
  assume IH: "\<And>create cfg self_model message chat_mode nb dm s tr y.
      send_loop create cfg self_model message chat_mode nb dm s tr = Some y \<Longrightarrow>
      prompt_start cfg chat_mode = Inr sys \<longrightarrow>
      send_post self_model sys message chat_mode nb dm tr y"
  assume prems: "(if self_model \<in> claude_models then
        (case prompt_start cfg chat_mode of
           Inl e \<Rightarrow> Some (Inl e, s, tr)
         | Inr sys \<Rightarrow>
             (let messages = generate_prompt_messages message dm chat_mode;
                  req = create_args self_model sys messages False
              in case create s req of
                   (Inr r, s') \<Rightarrow>
                     Some (Inr (postprocess_answer (content0_text r),
                                (usage_input_tokens r, usage_output_tokens r),
                                nb - int (length dm)),
                           s', tr @ [(req, Inr r)])
                 | (Inl e, s') \<Rightarrow>
                     (case e of
                        APIStatusError status_code txt \<Rightarrow>
                          if length dm = 0 then
                            Some (Inl (HistoryExhaustedError e), s', tr @ [(req, Inl e)])
                          else if status_code = PyStr ''403'' then
                            send_loop create cfg self_model message chat_mode
                              nb (tl dm) s' (tr @ [(req, Inl e)])
                          else if status_code = PyStr ''429'' then
                            Some (Inl (RateLimitedError e), s', tr @ [(req, Inl e)])
                          else
                            send_loop create cfg self_model message chat_mode
                              nb dm s' (tr @ [(req, Inl e)])
                      | _ \<Rightarrow> Some (Inl e, s', tr @ [(req, Inl e)]))))
      else Some (Inl (UnknownModelError self_model), s, tr)) = Some y"
  show "prompt_start cfg chat_mode = Inr sys \<longrightarrow>
      send_post self_model sys message chat_mode nb dm tr y"
  proof
    assume ps: "prompt_start cfg chat_mode = Inr sys"
    let ?req = "create_args self_model sys (generate_prompt_messages message dm chat_mode) False"
    show "send_post self_model sys message chat_mode nb dm tr y"
    proof (cases "self_model \<in> claude_models")
      case False
      with prems show ?thesis by (auto simp: send_post_no_call)
    next
      case True
      obtain out s' where cr: "create s ?req = (out, s')" by (cases "create s ?req")
      show ?thesis
      proof (cases out)
        case (Inr r)
        with prems True ps cr show ?thesis
          by (auto simp: Let_def send_post_success)
      next
        case (Inl e)
        show ?thesis
        proof (cases "is_status_error e")
          case False
          with prems True ps cr Inl have "y = (Inl e, s', tr @ [(?req, Inl e)])"
            by (cases e) (auto simp: Let_def is_status_error_def)
          then show ?thesis by (simp add: send_post_raise)
        next
          case se: True
          then obtain status_code detail where e: "e = APIStatusError status_code detail"
            by (cases e) (auto simp: is_status_error_def)
          show ?thesis
          proof (cases "dm = []")
            case True
            with prems \<open>self_model \<in> claude_models\<close> ps cr Inl e
            have "y = (Inl (HistoryExhaustedError e), s', tr @ [(?req, Inl e)])"
              by (auto simp: Let_def)
            then show ?thesis by (simp add: send_post_raise)
          next
            case ne: False
            show ?thesis
            proof (cases "status_code = PyStr ''403''")
              case True
              with prems \<open>self_model \<in> claude_models\<close> ps cr Inl e ne
              have "send_loop create cfg self_model message chat_mode nb (tl dm) s' (tr @ [(?req, Inl e)]) = Some y"
                by (auto simp: Let_def)
              from IH [OF this] ps
              have "send_post self_model sys message chat_mode nb (tl dm) (tr @ [(?req, Inl e)]) y"
                by simp
              moreover from True e have "too_large e" by (simp add: too_large_def)
              ultimately show ?thesis using ne by (blast intro: send_post_drop)
            next
              case n403: False
              show ?thesis
              proof (cases "status_code = PyStr ''429''")
                case True
                with prems \<open>self_model \<in> claude_models\<close> ps cr Inl e ne n403
                have "y = (Inl (RateLimitedError e), s', tr @ [(?req, Inl e)])"
                  by (auto simp: Let_def)
                then show ?thesis by (simp add: send_post_raise)
              next
                case False
                with prems \<open>self_model \<in> claude_models\<close> ps cr Inl e ne n403
                have "send_loop create cfg self_model message chat_mode nb dm s' (tr @ [(?req, Inl e)]) = Some y"
                  by (auto simp: Let_def)
                from IH [OF this] ps
                have "send_post self_model sys message chat_mode nb dm (tr @ [(?req, Inl e)]) y"
                  by simp
                moreover from n403 e have "\<not> too_large e" by (simp add: too_large_def)
                ultimately show ?thesis by (blast intro: send_post_same)
              qed
            qed
          qed
        qed
      qed
    qed
  qed
qed


subsection \<open>The first attempt\<close>

lemma prompt_start_dom: "prompt_start cfg chat_mode = Inr sys \<Longrightarrow> chat_mode \<in> dom cfg"
  by (auto simp: prompt_start_def split: option.splits)



subsection \<open>One iteration of \<open>send_loop\<close>, by the reply\<close>

lemma status_error_cases:
  "is_status_error e \<Longrightarrow> \<exists>status_code detail. e = APIStatusError status_code detail"
  by (cases e) (simp_all add: is_status_error_def)

lemma too_large_status: "too_large e \<Longrightarrow> is_status_error e"
  by (cases e) (simp_all add: too_large_def is_status_error_def)

lemma rate_limited_status: "rate_limited e \<Longrightarrow> is_status_error e"
  by (cases e) (simp_all add: rate_limited_def is_status_error_def)

lemma send_loop_unknown_model:
  "self_model \<notin> claude_models \<Longrightarrow>
     send_loop create cfg self_model message chat_mode nb dm s tr =
       Some (Inl (UnknownModelError self_model), s, tr)"
  by (subst send_loop.simps) simp

lemma send_loop_no_prompt:
  "self_model \<in> claude_models \<Longrightarrow> prompt_start cfg chat_mode = Inl e \<Longrightarrow>
     send_loop create cfg self_model message chat_mode nb dm s tr = Some (Inl e, s, tr)"
  by (subst send_loop.simps) simp

lemma send_loop_answer:
  "self_model \<in> claude_models \<Longrightarrow> prompt_start cfg chat_mode = Inr sys \<Longrightarrow>
   create s (create_args self_model sys (generate_prompt_messages message dm chat_mode) False) =
     (Inr r, s') \<Longrightarrow>
     send_loop create cfg self_model message chat_mode nb dm s tr =
       Some (Inr (postprocess_answer (content0_text r),
                  (usage_input_tokens r, usage_output_tokens r), nb - int (length dm)),
             s',
             tr @ [(create_args self_model sys (generate_prompt_messages message dm chat_mode) False,
                    Inr r)])"
  by (subst send_loop.simps) (simp add: Let_def)

lemma send_loop_propagate:
  "self_model \<in> claude_models \<Longrightarrow> prompt_start cfg chat_mode = Inr sys \<Longrightarrow>
   create s (create_args self_model sys (generate_prompt_messages message dm chat_mode) False) =
     (Inl e, s') \<Longrightarrow>
   \<not> is_status_error e \<Longrightarrow>
     send_loop create cfg self_model message chat_mode nb dm s tr =
       Some (Inl e, s',
             tr @ [(create_args self_model sys (generate_prompt_messages message dm chat_mode) False,
                    Inl e)])"
  by (subst send_loop.simps) (cases e; simp add: Let_def is_status_error_def)

lemma send_loop_exhausted:
  "self_model \<in> claude_models \<Longrightarrow> prompt_start cfg chat_mode = Inr sys \<Longrightarrow>
   create s (create_args self_model sys (generate_prompt_messages message dm chat_mode) False) =
     (Inl e, s') \<Longrightarrow>
   is_status_error e \<Longrightarrow> dm = [] \<Longrightarrow>
     send_loop create cfg self_model message chat_mode nb dm s tr =
       Some (Inl (HistoryExhaustedError e), s',
             tr @ [(create_args self_model sys (generate_prompt_messages message dm chat_mode) False,
                    Inl e)])"
  by (subst send_loop.simps) (cases e; simp add: Let_def is_status_error_def)

lemma send_loop_drop:
  "self_model \<in> claude_models \<Longrightarrow> prompt_start cfg chat_mode = Inr sys \<Longrightarrow>
   create s (create_args self_model sys (generate_prompt_messages message dm chat_mode) False) =
     (Inl e, s') \<Longrightarrow>
   too_large e \<Longrightarrow> dm \<noteq> [] \<Longrightarrow>
     send_loop create cfg self_model message chat_mode nb dm s tr =
       send_loop create cfg self_model message chat_mode nb (tl dm) s'
         (tr @ [(create_args self_model sys (generate_prompt_messages message dm chat_mode) False,
                 Inl e)])"
  by (subst send_loop.simps) (cases e; simp add: Let_def too_large_def)

lemma send_loop_rate_limited:
  "self_model \<in> claude_models \<Longrightarrow> prompt_start cfg chat_mode = Inr sys \<Longrightarrow>
   create s (create_args self_model sys (generate_prompt_messages message dm chat_mode) False) =
     (Inl e, s') \<Longrightarrow>
   rate_limited e \<Longrightarrow> dm \<noteq> [] \<Longrightarrow>
     send_loop create cfg self_model message chat_mode nb dm s tr =
       Some (Inl (RateLimitedError e), s',
             tr @ [(create_args self_model sys (generate_prompt_messages message dm chat_mode) False,
                    Inl e)])"
  by (subst send_loop.simps) (cases e; simp add: Let_def rate_limited_def)

lemma send_loop_again:
  "self_model \<in> claude_models \<Longrightarrow> prompt_start cfg chat_mode = Inr sys \<Longrightarrow>
   create s (create_args self_model sys (generate_prompt_messages message dm chat_mode) False) =
     (Inl e, s') \<Longrightarrow>
   is_status_error e \<Longrightarrow> \<not> too_large e \<Longrightarrow> \<not> rate_limited e \<Longrightarrow> dm \<noteq> [] \<Longrightarrow>
     send_loop create cfg self_model message chat_mode nb dm s tr =
       send_loop create cfg self_model message chat_mode nb dm s'
         (tr @ [(create_args self_model sys (generate_prompt_messages message dm chat_mode) False,
                 Inl e)])"
  by (subst send_loop.simps)
     (cases e; simp add: Let_def is_status_error_def too_large_def rate_limited_def)

subsection \<open>A service that always reports "too large"\<close>





subsection \<open>Facts about the example data\<close>

lemmas example_defs = example_cfg_def example_model_def example_history_def example_request_def
  status_error_def service_fails_def example_response_def service_fits_one_turn_def
  create_args_def generate_prompt_messages_def role_content_def prompt_start_def
  claude_models_def

lemma example_prompt_start: "prompt_start example_cfg ''assistant'' = Inr ''Be helpful.''"
  by (simp add: example_cfg_def prompt_start_def)

lemma example_model_known: "example_model \<in> claude_models"
  by (simp add: example_model_def claude_models_def)

lemma example_one_turn:
  "send_message service_fits_one_turn example_cfg example_model ''hello'' example_history
     ''assistant'' 0 =
   Some (Inr (''hi there'', (5, 3), 2), 3,
      [(example_request example_history False, Inl (status_error ''403'')),
       (example_request (drop 1 example_history) False, Inl (status_error ''403'')),
       (example_request (drop 2 example_history) False, Inr example_response)])"
  by (simp add: send_message_def send_loop.simps example_defs strip_def is_space_def
      postprocess_answer_def)

subsection \<open>The token accounting as sums\<close>







subsection \<open>Status codes the handler does not recognise\<close>

text \<open>
  A status code that is an integer equals neither string. A status error that is neither
  "too large" nor "rate limited", on a non-empty history, matches no branch of the handler:
  nothing is raised, \<open>answer\<close> is still \<open>None\<close>, and the same request is sent again; against
  a service that keeps answering so, \<open>send_message\<close> never returns.
\<close>

lemma integer_status_not_recognised:
  "\<not> too_large (APIStatusError (PyInt n) detail) \<and> \<not> rate_limited (APIStatusError (PyInt n) detail)"
  by (simp add: too_large_def rate_limited_def)

lemma send_loop_unrecognised_status:
  assumes other: "\<forall>s req. \<exists>e s'. create s req = (Inl e, s') \<and> is_status_error e \<and>
                     \<not> too_large e \<and> \<not> rate_limited e"
    and ps: "prompt_start cfg chat_mode = Inr sys" and m: "self_model \<in> claude_models"
    and ne: "dm \<noteq> []"
  shows "send_loop create cfg self_model message chat_mode nb dm s tr = None"
proof (rule ccontr)
  assume "send_loop create cfg self_model message chat_mode nb dm s tr \<noteq> None"
  then obtain y where run: "send_loop create cfg self_model message chat_mode nb dm s tr = Some y"
    by blast
  have "create = create \<and> cfg = cfg \<and> self_model = self_model \<and> chat_mode = chat_mode \<and>
        dm \<noteq> [] \<longrightarrow> False"
  proof (rule send_loop.raw_induct
      [where P = "\<lambda>create' cfg' self_model' message' chat_mode' nb' dm' s' tr' y'.
          create' = create \<and> cfg' = cfg \<and> self_model' = self_model \<and> chat_mode' = chat_mode \<and>
          dm' \<noteq> [] \<longrightarrow> False", OF _ run], goal_cases)
    case (1 loop create' cfg' self_model' message' chat_mode' nb' dm' s' tr' y')
    note IH = "1"(1) and body = "1"(2)
    show ?case
    proof
      assume a: "create' = create \<and> cfg' = cfg \<and> self_model' = self_model \<and>
                 chat_mode' = chat_mode \<and> dm' \<noteq> []"
      let ?req = "create_args self_model sys (generate_prompt_messages message' dm' chat_mode) False"
      from other obtain e s1 where cr: "create s' ?req = (Inl e, s1)" and
        e: "is_status_error e" "\<not> too_large e" "\<not> rate_limited e"
        by blast
      from e(1) obtain status_code detail where ed: "e = APIStatusError status_code detail"
        by (blast dest: status_error_cases)
      from e(2,3) ed have sc: "status_code \<noteq> PyStr ''403''" "status_code \<noteq> PyStr ''429''"
        by (simp_all add: too_large_def rate_limited_def)
      from body a ps m cr ed sc
      have "loop create cfg self_model message' chat_mode nb' dm' s1
              (tr' @ [(?req, Inl e)]) = Some y'"
        by (simp add: Let_def)
      from IH [OF this] a show False by simp
    qed
  qed
  with ne show False by simp
qed

lemma unrecognised_status_never_returns:
  "history \<noteq> [] \<Longrightarrow>
     send_message (service_fails (status_error ''500'')) example_cfg example_model message history
       ''assistant'' (s::nat) = None"
proof -
  assume ne: "history \<noteq> []"
  have other: "\<forall>s req. \<exists>e s'. (service_fails (status_error ''500'') :: nat create) s req = (Inl e, s') \<and>
      is_status_error e \<and> \<not> too_large e \<and> \<not> rate_limited e"
    by (simp add: service_fails_def status_error_def is_status_error_def too_large_def
        rate_limited_def)
  from send_loop_unrecognised_status [OF other example_prompt_start example_model_known ne]
    prompt_start_dom [OF example_prompt_start]
  show ?thesis by (simp add: send_message_def)
qed

section \<open>Trimming the history\<close>



section \<open>Success on the first attempt, unsupported modes\<close>



text \<open>
  Claim C9. For every mode key that is not a key of the configuration, both \<open>send_message\<close>
  and \<open>send_message_stream\<close> fail with \<open>UnsupportedModeError\<close> at once: the trace of remote
  calls is empty, the state of the service is unchanged, and the stream has yielded nothing.
\<close>

theorem unsupported_mode:
  "chat_mode \<notin> dom cfg \<Longrightarrow>
     send_message create cfg self_model message history chat_mode s =
       Some (Inl (UnsupportedModeError chat_mode), s, []) \<and>
     send_message_stream create_s efm cfg self_model message history chat_mode s2 =
       Some ([], Some (UnsupportedModeError chat_mode), s2, [])"
  by (simp add: send_message_def send_message_stream_def)

theorem unsupported_mode_witness:
  "''pirate'' \<notin> dom [''assistant'' \<mapsto> [''prompt_start'' \<mapsto> ''Be helpful.'']] \<and>
   send_message (\<lambda>s req. (Inl (RemoteError ''unreachable''), Suc s))
       [''assistant'' \<mapsto> [''prompt_start'' \<mapsto> ''Be helpful.'']]
       ''claude-3-5-sonnet-20240620'' ''hello'' [\<lparr>user = ''a'', bot = ''b''\<rparr>] ''pirate'' (0::nat) =
     Some (Inl (UnsupportedModeError ''pirate''), 0, []) \<and>
   send_message_stream (\<lambda>s req. (Inl (RemoteError ''unreachable''), Suc s)) (\<lambda>m. None)
       [''assistant'' \<mapsto> [''prompt_start'' \<mapsto> ''Be helpful.'']]
       ''claude-3-5-sonnet-20240620'' ''hello'' [\<lparr>user = ''a'', bot = ''b''\<rparr>] ''pirate'' (0::nat) =
     Some ([], Some (UnsupportedModeError ''pirate''), 0, [])"
proof -
  have h: "''pirate'' \<notin> dom [''assistant'' \<mapsto> [''prompt_start'' \<mapsto> ''Be helpful.'']]"
    by simp
  from unsupported_mode [OF h] h show ?thesis by simp
qed

section \<open>Rate limits and other errors\<close>







section \<open>The message list\<close>

text \<open>
  Claim C5. For every history and message the list built by \<open>_generate_prompt_messages\<close> has
  \<open>2 * len(history) + 1\<close> entries; entry \<open>2 * i\<close> is the user entry of turn \<open>i\<close> and entry
  \<open>2 * i + 1\<close> its assistant entry, in the order of the history; the last entry is the user
  entry of the new message; so the roles alternate user, assistant, ..., user. The list
  does not depend on the configuration: in every call \<open>send_message\<close> makes, the prompt of
  the mode is the \<open>system\<close> argument and the \<open>messages\<close> argument is the list built from the
  new message and a suffix of the history.
\<close>

theorem prompt_messages_alternate:
  "length (generate_prompt_messages message history chat_mode) = 2 * length history + 1 \<and>
   (\<forall>i<length history.
      generate_prompt_messages message history chat_mode ! (2 * i) =
        role_content ''user'' (user (history ! i)) \<and>
      generate_prompt_messages message history chat_mode ! (2 * i + 1) =
        role_content ''assistant'' (bot (history ! i))) \<and>
   generate_prompt_messages message history chat_mode ! (2 * length history) =
     role_content ''user'' message \<and>
   (\<forall>j<2 * length history + 1.
      role_of (generate_prompt_messages message history chat_mode ! j) =
        Some (if even j then ''user'' else ''assistant'')) \<and>
   (prompt_start cfg chat_mode = Inr sys \<and>
    send_message create cfg self_model message history chat_mode s = Some (res, s', tr) \<longrightarrow>
      (\<forall>c\<in>set tr. req_system (fst c) = sys \<and>
         (\<exists>k\<le>length history.
            req_messages (fst c) =
              generate_prompt_messages message (drop k history) chat_mode)))"
proof (intro conjI allI impI)
  show "length (generate_prompt_messages message history chat_mode) = 2 * length history + 1"
    by (rule length_generate_prompt_messages)
next
  fix i assume "i < length history"
  from nth_generate_prompt_messages [OF this, of message chat_mode]
  show "generate_prompt_messages message history chat_mode ! (2 * i) =
        role_content ''user'' (user (history ! i))"
    and "generate_prompt_messages message history chat_mode ! (2 * i + 1) =
        role_content ''assistant'' (bot (history ! i))"
    by simp_all
next
  show "generate_prompt_messages message history chat_mode ! (2 * length history) =
     role_content ''user'' message"
    by (rule last_generate_prompt_messages)
next
  fix j assume "j < 2 * length history + 1"
  then show "role_of (generate_prompt_messages message history chat_mode ! j) =
        Some (if even j then ''user'' else ''assistant'')"
    by (rule roles_generate_prompt_messages)
next
  assume a: "prompt_start cfg chat_mode = Inr sys \<and>
    send_message create cfg self_model message history chat_mode s = Some (res, s', tr)"
  then have ps: "prompt_start cfg chat_mode = Inr sys" by simp
  from a prompt_start_dom [OF ps]
  have "send_loop create cfg self_model message chat_mode (int (length history)) history s [] =
          Some (res, s', tr)"
    by (simp add: send_message_def)
  from send_loop_post [OF this, of sys] ps
  have "\<forall>c\<in>set tr. \<exists>k\<le>length history.
              fst c = create_args self_model sys
                        (generate_prompt_messages message (drop k history) chat_mode) False"
    by (simp add: send_post_def)
  then show "\<forall>c\<in>set tr. req_system (fst c) = sys \<and>
         (\<exists>k\<le>length history.
            req_messages (fst c) =
              generate_prompt_messages message (drop k history) chat_mode)"
    by (fastforce simp: create_args_def)
qed

theorem prompt_messages_alternate_witness:
  "prompt_start example_cfg ''assistant'' = Inr ''Be helpful.'' \<and>
   length (generate_prompt_messages ''hello'' example_history ''assistant'') = 7 \<and>
   generate_prompt_messages ''hello'' example_history ''assistant'' ! 2 =
     [(''role'', ''user''), (''content'', ''two'')] \<and>
   generate_prompt_messages ''hello'' example_history ''assistant'' ! 3 =
     [(''role'', ''assistant''), (''content'', ''2'')] \<and>
   generate_prompt_messages ''hello'' example_history ''assistant'' ! 6 =
     [(''role'', ''user''), (''content'', ''hello'')] \<and>
   role_of (generate_prompt_messages ''hello'' example_history ''assistant'' ! 5) =
     Some ''assistant'' \<and>
   send_message service_fits_one_turn example_cfg example_model ''hello'' example_history
     ''assistant'' 0 =
   Some (Inr (''hi there'', (5, 3), 2), 3,
      [(example_request example_history False, Inl (status_error ''403'')),
       (example_request (drop 1 example_history) False, Inl (status_error ''403'')),
       (example_request (drop 2 example_history) False, Inr example_response)]) \<and>
   req_system (example_request (drop 1 example_history) False) = ''Be helpful.''"
proof -
  let ?tr = "[(example_request example_history False, Inl (status_error ''403'')),
       (example_request (drop 1 example_history) False, Inl (status_error ''403'')),
       (example_request (drop 2 example_history) False, Inr example_response)] :: trace"
  note inst = prompt_messages_alternate [of "''hello''" example_history "''assistant''"
      example_cfg "''Be helpful.''" service_fits_one_turn example_model 0
      "Inr (''hi there'', (5, 3), 2)" 3 ?tr]
  have len: "length example_history = 3" by (simp add: example_history_def)
  have 1: "length (generate_prompt_messages ''hello'' example_history ''assistant'') = 7"
    using inst len by simp
  have i1: "(1::nat) < length example_history" using len by simp
  have 2: "generate_prompt_messages ''hello'' example_history ''assistant'' ! 2 =
     [(''role'', ''user''), (''content'', ''two'')]"
    and 3: "generate_prompt_messages ''hello'' example_history ''assistant'' ! 3 =
     [(''role'', ''assistant''), (''content'', ''2'')]"
    using inst [THEN conjunct2, THEN conjunct1, rule_format, OF i1]
    by (simp_all add: example_history_def role_content_def)
  have 4: "generate_prompt_messages ''hello'' example_history ''assistant'' ! 6 =
     [(''role'', ''user''), (''content'', ''hello'')]"
    using inst [THEN conjunct2, THEN conjunct2, THEN conjunct1] len
    by (simp add: role_content_def)
  have j5: "(5::nat) < 2 * length example_history + 1" using len by simp
  have 5: "role_of (generate_prompt_messages ''hello'' example_history ''assistant'' ! 5) =
     Some ''assistant''"
    using inst [THEN conjunct2, THEN conjunct2, THEN conjunct2, THEN conjunct1, rule_format, OF j5]
    by simp
  have "\<forall>c\<in>set ?tr. req_system (fst c) = ''Be helpful.'' \<and>
         (\<exists>k\<le>length example_history.
            req_messages (fst c) =
              generate_prompt_messages ''hello'' (drop k example_history) ''assistant'')"
    using inst example_prompt_start example_one_turn by blast
  then have 6: "req_system (example_request (drop 1 example_history) False) = ''Be helpful.''"
    by simp
  from example_prompt_start 1 2 3 4 5 example_one_turn 6 show ?thesis by blast
qed

section \<open>Token accounting\<close>



section \<open>The loop of \<open>send_message_stream\<close>\<close>








subsection \<open>A first call that streams to its end\<close>






subsection \<open>Streams of the example services\<close>

lemmas stream_example_defs = send_message_stream_def stream_loop.simps stream_try_def
  final_yield_def unassigned_def count_tokens_from_messages_def tokens_per_def count_message_def
  example_tokenizers_def service_streams_def postprocess_answer_def strip_def is_space_def
  Let_def


lemma example_stream_rate_limited:
  "send_message_stream (service_fails (status_error ''429'')) example_tokenizers example_cfg
     example_model ''hello'' example_history ''assistant'' 0 =
   Some ([], Some (RateLimitedError (status_error ''429'')), 1,
         [(example_request example_history True, Inl (status_error ''429''))])"
  by (simp add: stream_example_defs example_defs)

section \<open>The elements of the stream\<close>





section \<open>Errors during streaming\<close>

text \<open>
  Claim C6. The claim asks that an error surfaced during streaming be handled as in
  \<open>send_message\<close>: "too large" on a non-empty history is retried with the oldest turn
  removed and an empty buffer. Here the service streams one fragment and then fails with
  status \<open>'403'\<close>, on a history of three turns: the handler removes a turn, but \<open>answer\<close> is no
  longer \<open>None\<close>, the loop ends, and the generator yields a \<open>"finished"\<close> element with the
  partial, untrimmed text after a single remote call.
\<close>

theorem stream_error_while_streaming:
  "send_message_stream
     (service_streams [ContentBlockDelta '' par''] (Some (status_error ''403'')))
     example_tokenizers example_cfg example_model ''hello'' example_history ''assistant'' 0 =
   Some ([(''not_finished'', '' par'', (85, 5), 0), (''finished'', '' par'', (85, 5), 0)],
         None, 1,
         [(example_request example_history True,
           Inr ([ContentBlockDelta '' par''], Some (status_error ''403'')))])"
  by (simp add: stream_example_defs example_defs)

section \<open>The loops over the store\<close>

lemma extends_refl: "extends h h"
  by (simp add: extends_def)

lemma extends_trans: "extends h h1 \<Longrightarrow> extends h1 h2 \<Longrightarrow> extends h h2"
  by (auto simp: extends_def)

lemma slice_from_1_extends:
  "slice_from_1 h a = (sliced, h') \<Longrightarrow>
     extends h h' \<and> objs h' sliced = tl (objs h a) \<and> sliced = next_free h \<and>
     next_free h' = Suc (next_free h)"
  by (auto simp: slice_from_1_def extends_def)

lemma send_loop_st_value:
  assumes "send_loop_st create cfg self_model message chat_mode nb a h s tr = Some y"
  shows "case y of (res, h', s', tr') \<Rightarrow>
           send_loop create cfg self_model message chat_mode nb (objs h a) s tr =
             Some (res, s', tr') \<and> extends h h'"
proof (rule send_loop_st.raw_induct
    [where P = "\<lambda>create cfg self_model message chat_mode nb a h s tr y.
        case y of (res, h', s', tr') \<Rightarrow>
           send_loop create cfg self_model message chat_mode nb (objs h a) s tr =
             Some (res, s', tr') \<and> extends h h'", OF _ assms], goal_cases)
  case (1 loop create cfg self_model message chat_mode nb a h s tr y)
  note IH = "1"(1) and body = "1"(2)
  let ?dm = "objs h a"
  show ?case
  proof (cases "self_model \<in> claude_models")
    case False
    with body have "y = (Inl (UnknownModelError self_model), h, s, tr)" by simp
    with send_loop_unknown_model [OF False] show ?thesis by (simp add: extends_refl)
  next
    case m: True
    show ?thesis
    proof (cases "prompt_start cfg chat_mode")
      case (Inl e)
      with body m have "y = (Inl e, h, s, tr)" by simp
      with send_loop_no_prompt [OF m Inl] show ?thesis by (simp add: extends_refl)
    next
      case ps: (Inr sys)
      let ?req = "create_args self_model sys (generate_prompt_messages message ?dm chat_mode) False"
      obtain reply s' where cr: "create s ?req = (reply, s')" by (cases "create s ?req")
      show ?thesis
      proof (cases reply)
        case (Inr r)
        with body m ps cr
        have "y = (Inr (postprocess_answer (content0_text r),
                       (usage_input_tokens r, usage_output_tokens r), nb - int (length ?dm)),
                  h, s', tr @ [(?req, Inr r)])"
          by (simp add: Let_def)
        with send_loop_answer [of self_model cfg chat_mode sys create s message ?dm r s' nb tr]
          m ps cr Inr
        show ?thesis by (simp add: extends_refl)
      next
        case (Inl e)
        with cr have cre: "create s ?req = (Inl e, s')" by simp
        show ?thesis
        proof (cases "is_status_error e")
          case False
          with body m ps cre have "y = (Inl e, h, s', tr @ [(?req, Inl e)])"
            by (cases e) (simp_all add: Let_def is_status_error_def)
          with send_loop_propagate [of self_model cfg chat_mode sys create s message ?dm e s' nb tr]
            m ps cre False
          show ?thesis by (simp add: extends_refl)
        next
          case se: True
          then obtain status_code detail where e: "e = APIStatusError status_code detail"
            by (blast dest: status_error_cases)
          show ?thesis
          proof (cases "?dm = []")
            case True
            with body m ps cre e
            have "y = (Inl (HistoryExhaustedError e), h, s', tr @ [(?req, Inl e)])"
              by (simp add: Let_def)
            with send_loop_exhausted [of self_model cfg chat_mode sys create s message ?dm e s' nb tr]
              m ps cre se True
            show ?thesis by (simp add: extends_refl)
          next
            case ne: False
            show ?thesis
            proof (cases "status_code = PyStr ''403''")
              case True
              obtain sliced h1 where sl: "slice_from_1 h a = (sliced, h1)"
                by (cases "slice_from_1 h a")
              from slice_from_1_extends [OF sl] have
                ext: "extends h h1" and obj: "objs h1 sliced = tl ?dm" by blast+
              from body m ps cre e ne True sl
              have "loop create cfg self_model message chat_mode nb sliced h1 s'
                      (tr @ [(?req, Inl e)]) = Some y"
                by (simp add: Let_def)
              from IH [OF this] obj obtain res h' s2 tr' where
                y: "y = (res, h', s2, tr')" and
                v: "send_loop create cfg self_model message chat_mode nb (tl ?dm) s'
                      (tr @ [(?req, Inl e)]) = Some (res, s2, tr')" and
                ext1: "extends h1 h'"
                by (cases y) auto
              from True e have "too_large e" by (simp add: too_large_def)
              from send_loop_drop [of self_model cfg chat_mode sys create s message ?dm e s' nb tr,
                  OF m ps cre this ne] v
              have "send_loop create cfg self_model message chat_mode nb ?dm s tr =
                      Some (res, s2, tr')" by simp
              with y extends_trans [OF ext ext1] show ?thesis by simp
            next
              case n403: False
              show ?thesis
              proof (cases "status_code = PyStr ''429''")
                case True
                with body m ps cre e ne n403
                have "y = (Inl (RateLimitedError e), h, s', tr @ [(?req, Inl e)])"
                  by (simp add: Let_def)
                moreover from True e have "rate_limited e" by (simp add: rate_limited_def)
                ultimately show ?thesis
                  using send_loop_rate_limited
                    [of self_model cfg chat_mode sys create s message ?dm e s' nb tr] m ps cre ne
                  by (simp add: extends_refl)
              next
                case False
                with body m ps cre e ne n403
                have "loop create cfg self_model message chat_mode nb a h s'
                        (tr @ [(?req, Inl e)]) = Some y"
                  by (simp add: Let_def)
                from IH [OF this] obtain res h' s2 tr' where
                  y: "y = (res, h', s2, tr')" and
                  v: "send_loop create cfg self_model message chat_mode nb ?dm s'
                        (tr @ [(?req, Inl e)]) = Some (res, s2, tr')" and
                  ext1: "extends h h'"
                  by (cases y) auto
                from n403 False e have "\<not> too_large e" "\<not> rate_limited e"
                  by (simp_all add: too_large_def rate_limited_def)
                from send_loop_again [of self_model cfg chat_mode sys create s message ?dm e s' nb tr,
                    OF m ps cre se this ne] v
                have "send_loop create cfg self_model message chat_mode nb ?dm s tr =
                        Some (res, s2, tr')" by simp
                with y ext1 show ?thesis by simp
              qed
            qed
          qed
        qed
      qed
    qed
  qed
qed


lemma send_loop_value_st:
  assumes "send_loop create cfg self_model message chat_mode nb dm s tr = Some y"
  shows "\<forall>a h. objs h a = dm \<longrightarrow>
           (\<exists>h'. send_loop_st create cfg self_model message chat_mode nb a h s tr =
                   Some (fst y, h', snd y))"
proof (rule send_loop.raw_induct
    [where P = "\<lambda>create cfg self_model message chat_mode nb dm s tr y.
        \<forall>a h. objs h a = dm \<longrightarrow>
           (\<exists>h'. send_loop_st create cfg self_model message chat_mode nb a h s tr =
                   Some (fst y, h', snd y))", OF _ assms], goal_cases)
  case (1 loop create cfg self_model message chat_mode nb dm s tr y)
  note IH = "1"(1) and body = "1"(2)
  show ?case
  proof (intro allI impI)
    fix a and h :: store assume dm: "objs h a = dm"
    show "\<exists>h'. send_loop_st create cfg self_model message chat_mode nb a h s tr =
                   Some (fst y, h', snd y)"
    proof (cases "self_model \<in> claude_models")
      case False
      with body have "y = (Inl (UnknownModelError self_model), s, tr)" by simp
      with False show ?thesis by (subst send_loop_st.simps) simp
    next
      case m: True
      show ?thesis
      proof (cases "prompt_start cfg chat_mode")
        case (Inl e)
        with body m have "y = (Inl e, s, tr)" by simp
        with m Inl show ?thesis by (subst send_loop_st.simps) simp
      next
        case ps: (Inr sys)
        let ?req = "create_args self_model sys (generate_prompt_messages message dm chat_mode) False"
        obtain reply s' where cr: "create s ?req = (reply, s')" by (cases "create s ?req")
        show ?thesis
        proof (cases reply)
          case (Inr r)
          with body m ps cr
          have "y = (Inr (postprocess_answer (content0_text r),
                         (usage_input_tokens r, usage_output_tokens r), nb - int (length dm)),
                    s', tr @ [(?req, Inr r)])"
            by (simp add: Let_def)
          with m ps cr Inr dm show ?thesis
            by (subst send_loop_st.simps) (simp add: Let_def)
        next
          case (Inl e)
          with cr have cre: "create s ?req = (Inl e, s')" by simp
          show ?thesis
          proof (cases "is_status_error e")
            case False
            with body m ps cre have "y = (Inl e, s', tr @ [(?req, Inl e)])"
              by (cases e) (simp_all add: Let_def is_status_error_def)
            with m ps cre dm False show ?thesis
              by (subst send_loop_st.simps) (cases e; simp add: Let_def is_status_error_def)
          next
            case se: True
            then obtain status_code detail where e: "e = APIStatusError status_code detail"
              by (blast dest: status_error_cases)
            show ?thesis
            proof (cases "dm = []")
              case True
              with body m ps cre e
              have "y = (Inl (HistoryExhaustedError e), s', tr @ [(?req, Inl e)])"
                by (simp add: Let_def)
              with m ps cre dm True e show ?thesis
                by (subst send_loop_st.simps) (simp add: Let_def)
            next
              case ne: False
              show ?thesis
              proof (cases "status_code = PyStr ''403''")
                case True
                obtain sliced h1 where sl: "slice_from_1 h a = (sliced, h1)"
                  by (cases "slice_from_1 h a")
                from slice_from_1_extends [OF sl] dm have obj: "objs h1 sliced = tl dm" by blast
                from body m ps cre e ne True
                have "loop create cfg self_model message chat_mode nb (tl dm) s'
                        (tr @ [(?req, Inl e)]) = Some y"
                  by (simp add: Let_def)
                from IH [OF this, rule_format, OF obj] obtain h' where
                  "send_loop_st create cfg self_model message chat_mode nb sliced h1 s'
                     (tr @ [(?req, Inl e)]) = Some (fst y, h', snd y)"
                  by blast
                moreover have "send_loop_st create cfg self_model message chat_mode nb a h s tr =
                    send_loop_st create cfg self_model message chat_mode nb sliced h1 s'
                     (tr @ [(?req, Inl e)])"
                  using m ps cre dm e ne True sl
                  by (subst send_loop_st.simps) (simp add: Let_def)
                ultimately show ?thesis by simp
              next
                case n403: False
                show ?thesis
                proof (cases "status_code = PyStr ''429''")
                  case True
                  with body m ps cre e ne n403
                  have "y = (Inl (RateLimitedError e), s', tr @ [(?req, Inl e)])"
                    by (simp add: Let_def)
                  with m ps cre dm e ne n403 True show ?thesis
                    by (subst send_loop_st.simps) (simp add: Let_def)
                next
                  case False
                  with body m ps cre e ne n403
                  have "loop create cfg self_model message chat_mode nb dm s'
                          (tr @ [(?req, Inl e)]) = Some y"
                    by (simp add: Let_def)
                  from IH [OF this, rule_format, OF dm] obtain h' where
                    "send_loop_st create cfg self_model message chat_mode nb a h s'
                       (tr @ [(?req, Inl e)]) = Some (fst y, h', snd y)"
                    by blast
                  moreover have "send_loop_st create cfg self_model message chat_mode nb a h s tr =
                      send_loop_st create cfg self_model message chat_mode nb a h s'
                       (tr @ [(?req, Inl e)])"
                    using m ps cre dm e ne n403 False
                    by (subst send_loop_st.simps) (simp add: Let_def)
                  ultimately show ?thesis by simp
                qed
              qed
            qed
          qed
        qed
      qed
    qed
  qed
qed

lemma stream_loop_st_value:
  assumes "stream_loop_st create efm cfg self_model message chat_mode nb a h answer v out s tr =
             Some y"
  shows "case y of (out', raised, h', s', tr') \<Rightarrow>
           stream_loop create efm cfg self_model message chat_mode nb (objs h a) answer v out s tr =
             Some (out', raised, s', tr') \<and> extends h h'"
proof (rule stream_loop_st.raw_induct
    [where P = "\<lambda>create efm cfg self_model message chat_mode nb a h answer v out s tr y.
        case y of (out', raised, h', s', tr') \<Rightarrow>
           stream_loop create efm cfg self_model message chat_mode nb (objs h a) answer v out s tr =
             Some (out', raised, s', tr') \<and> extends h h'", OF _ assms], goal_cases)
  case (1 loop create efm cfg self_model message chat_mode nb a h answer v out s tr y)
  note IH = "1"(1) and body = "1"(2)
  let ?dm = "objs h a"
  show ?case
  proof (cases answer)
    case (Some final)
    obtain out1 raised where fy: "final_yield final v out = (out1, raised)"
      by (cases "final_yield final v out")
    with body Some have y: "y = (out1, raised, h, s, tr)" by simp
    have "stream_loop create efm cfg self_model message chat_mode nb ?dm answer v out s tr =
            Some (out1, raised, s, tr)"
      using Some fy by (subst stream_loop.simps) simp
    with y show ?thesis by (simp add: extends_refl)
  next
    case None
    obtain exc answer1 v1 out1 s1 tr1 where st:
      "stream_try create efm cfg self_model message chat_mode nb ?dm None v out s tr =
         (exc, answer1, v1, out1, s1, tr1)"
      by (cases "stream_try create efm cfg self_model message chat_mode nb ?dm None v out s tr")
        auto
    show ?thesis
    proof (cases exc)
      case n: None
      with body None st
      have "loop create efm cfg self_model message chat_mode nb a h answer1 v1 out1 s1 tr1 = Some y"
        by simp
      from IH [OF this] obtain out' raised h' s' tr' where
        y: "y = (out', raised, h', s', tr')" and
        r: "stream_loop create efm cfg self_model message chat_mode nb ?dm answer1 v1 out1 s1 tr1 =
              Some (out', raised, s', tr')" and
        ext: "extends h h'"
        by (cases y) auto
      have "stream_loop create efm cfg self_model message chat_mode nb ?dm answer v out s tr =
              stream_loop create efm cfg self_model message chat_mode nb ?dm answer1 v1 out1 s1 tr1"
        using None st n by (subst stream_loop.simps) simp
      with y r ext show ?thesis by simp
    next
      case (Some e)
      show ?thesis
      proof (cases "is_status_error e")
        case False
        with body None st Some have y: "y = (out1, Some e, h, s1, tr1)"
          by (cases e) (simp_all add: is_status_error_def)
        have "stream_loop create efm cfg self_model message chat_mode nb ?dm answer v out s tr =
                Some (out1, Some e, s1, tr1)"
          using None st Some False
          by (subst stream_loop.simps) (cases e; simp add: is_status_error_def)
        with y show ?thesis by (simp add: extends_refl)
      next
        case se: True
        then obtain status_code detail where e: "e = APIStatusError status_code detail"
          by (blast dest: status_error_cases)
        show ?thesis
        proof (cases "?dm = []")
          case True
          with body None st Some e
          have y: "y = (out1, Some (HistoryExhaustedError e), h, s1, tr1)" by simp
          have "stream_loop create efm cfg self_model message chat_mode nb ?dm answer v out s tr =
                  Some (out1, Some (HistoryExhaustedError e), s1, tr1)"
            using None st Some e True by (subst stream_loop.simps) simp
          with y show ?thesis by (simp add: extends_refl)
        next
          case ne: False
          show ?thesis
          proof (cases "status_code = PyStr ''403''")
            case True
            obtain sliced h1 where sl: "slice_from_1 h a = (sliced, h1)"
              by (cases "slice_from_1 h a")
            from slice_from_1_extends [OF sl] have
              ext: "extends h h1" and obj: "objs h1 sliced = tl ?dm" by blast+
            from body None st Some e ne True sl
            have "loop create efm cfg self_model message chat_mode nb sliced h1 answer1 v1 out1
                    s1 tr1 = Some y"
              by simp
            from IH [OF this] obj obtain out' raised h' s' tr' where
              y: "y = (out', raised, h', s', tr')" and
              r: "stream_loop create efm cfg self_model message chat_mode nb (tl ?dm) answer1 v1
                    out1 s1 tr1 = Some (out', raised, s', tr')" and
              ext1: "extends h1 h'"
              by (cases y) auto
            have "stream_loop create efm cfg self_model message chat_mode nb ?dm answer v out s tr =
                    stream_loop create efm cfg self_model message chat_mode nb (tl ?dm) answer1 v1
                      out1 s1 tr1"
              using None st Some e ne True by (subst stream_loop.simps) simp
            with y r extends_trans [OF ext ext1] show ?thesis by simp
          next
            case n403: False
            show ?thesis
            proof (cases "status_code = PyStr ''429''")
              case True
              with body None st Some e ne n403
              have y: "y = (out1, Some (RateLimitedError e), h, s1, tr1)" by simp
              have "stream_loop create efm cfg self_model message chat_mode nb ?dm answer v out s tr =
                      Some (out1, Some (RateLimitedError e), s1, tr1)"
                using None st Some e ne n403 True by (subst stream_loop.simps) simp
              with y show ?thesis by (simp add: extends_refl)
            next
              case False
              with body None st Some e ne n403
              have "loop create efm cfg self_model message chat_mode nb a h answer1 v1 out1
                      s1 tr1 = Some y"
                by simp
              from IH [OF this] obtain out' raised h' s' tr' where
                y: "y = (out', raised, h', s', tr')" and
                r: "stream_loop create efm cfg self_model message chat_mode nb ?dm answer1 v1
                      out1 s1 tr1 = Some (out', raised, s', tr')" and
                ext1: "extends h h'"
                by (cases y) auto
              have "stream_loop create efm cfg self_model message chat_mode nb ?dm answer v out s tr =
                      stream_loop create efm cfg self_model message chat_mode nb ?dm answer1 v1
                        out1 s1 tr1"
                using None st Some e ne n403 False by (subst stream_loop.simps) simp
              with y r ext1 show ?thesis by simp
            qed
          qed
        qed
      qed
    qed
  qed
qed


lemma stream_loop_value_st:
  assumes "stream_loop create efm cfg self_model message chat_mode nb dm answer v out s tr = Some y"
  shows "\<forall>a h. objs h a = dm \<longrightarrow>
           (\<exists>h'. stream_loop_st create efm cfg self_model message chat_mode nb a h answer v out s tr =
                   Some (fst y, fst (snd y), h', snd (snd y)))"
proof (rule stream_loop.raw_induct
    [where P = "\<lambda>create efm cfg self_model message chat_mode nb dm answer v out s tr y.
        \<forall>a h. objs h a = dm \<longrightarrow>
           (\<exists>h'. stream_loop_st create efm cfg self_model message chat_mode nb a h answer v out s tr =
                   Some (fst y, fst (snd y), h', snd (snd y)))", OF _ assms], goal_cases)
  case (1 loop create efm cfg self_model message chat_mode nb dm answer v out s tr y)
  note IH = "1"(1) and body = "1"(2)
  show ?case
  proof (intro allI impI)
    fix a and h :: store assume dm: "objs h a = dm"
    show "\<exists>h'. stream_loop_st create efm cfg self_model message chat_mode nb a h answer v out s tr =
                   Some (fst y, fst (snd y), h', snd (snd y))"
    proof (cases answer)
      case (Some final)
      obtain out1 raised where fy: "final_yield final v out = (out1, raised)"
        by (cases "final_yield final v out")
      with body Some have y: "y = (out1, raised, s, tr)" by simp
      with Some fy show ?thesis by (subst stream_loop_st.simps) simp
    next
      case None
      obtain exc answer1 v1 out1 s1 tr1 where st:
        "stream_try create efm cfg self_model message chat_mode nb dm None v out s tr =
           (exc, answer1, v1, out1, s1, tr1)"
        by (cases "stream_try create efm cfg self_model message chat_mode nb dm None v out s tr")
          auto
      show ?thesis
      proof (cases exc)
        case n: None
        with body None st
        have "loop create efm cfg self_model message chat_mode nb dm answer1 v1 out1 s1 tr1 = Some y"
          by simp
        from IH [OF this, rule_format, OF dm] obtain h' where
          "stream_loop_st create efm cfg self_model message chat_mode nb a h answer1 v1 out1 s1 tr1 =
             Some (fst y, fst (snd y), h', snd (snd y))"
          by blast
        moreover have
          "stream_loop_st create efm cfg self_model message chat_mode nb a h answer v out s tr =
           stream_loop_st create efm cfg self_model message chat_mode nb a h answer1 v1 out1 s1 tr1"
          using None st n dm by (subst stream_loop_st.simps) simp
        ultimately show ?thesis by simp
      next
        case (Some e)
        show ?thesis
        proof (cases "is_status_error e")
          case False
          with body None st Some have y: "y = (out1, Some e, s1, tr1)"
            by (cases e) (simp_all add: is_status_error_def)
          with None st Some False dm show ?thesis
            by (subst stream_loop_st.simps) (cases e; simp add: is_status_error_def)
        next
          case se: True
          then obtain status_code detail where e: "e = APIStatusError status_code detail"
            by (blast dest: status_error_cases)
          show ?thesis
          proof (cases "dm = []")
            case True
            with body None st Some e
            have y: "y = (out1, Some (HistoryExhaustedError e), s1, tr1)" by simp
            with None st Some e True dm show ?thesis
              by (subst stream_loop_st.simps) simp
          next
            case ne: False
            show ?thesis
            proof (cases "status_code = PyStr ''403''")
              case True
              obtain sliced h1 where sl: "slice_from_1 h a = (sliced, h1)"
                by (cases "slice_from_1 h a")
              from slice_from_1_extends [OF sl] dm have obj: "objs h1 sliced = tl dm" by blast
              from body None st Some e ne True
              have "loop create efm cfg self_model message chat_mode nb (tl dm) answer1 v1 out1
                      s1 tr1 = Some y"
                by simp
              from IH [OF this, rule_format, OF obj] obtain h' where
                "stream_loop_st create efm cfg self_model message chat_mode nb sliced h1 answer1 v1
                   out1 s1 tr1 = Some (fst y, fst (snd y), h', snd (snd y))"
                by blast
              moreover have
                "stream_loop_st create efm cfg self_model message chat_mode nb a h answer v out s tr =
                 stream_loop_st create efm cfg self_model message chat_mode nb sliced h1 answer1 v1
                   out1 s1 tr1"
                using None st Some e ne True dm sl by (subst stream_loop_st.simps) simp
              ultimately show ?thesis by simp
            next
              case n403: False
              show ?thesis
              proof (cases "status_code = PyStr ''429''")
                case True
                with body None st Some e ne n403
                have y: "y = (out1, Some (RateLimitedError e), s1, tr1)" by simp
                with None st Some e ne n403 True dm show ?thesis
                  by (subst stream_loop_st.simps) simp
              next
                case False
                with body None st Some e ne n403
                have "loop create efm cfg self_model message chat_mode nb dm answer1 v1 out1
                        s1 tr1 = Some y"
                  by simp
                from IH [OF this, rule_format, OF dm] obtain h' where
                  "stream_loop_st create efm cfg self_model message chat_mode nb a h answer1 v1
                     out1 s1 tr1 = Some (fst y, fst (snd y), h', snd (snd y))"
                  by blast
                moreover have
                  "stream_loop_st create efm cfg self_model message chat_mode nb a h answer v out s tr =
                   stream_loop_st create efm cfg self_model message chat_mode nb a h answer1 v1
                     out1 s1 tr1"
                  using None st Some e ne n403 False dm by (subst stream_loop_st.simps) simp
                ultimately show ?thesis by simp
              qed
            qed
          qed
        qed
      qed
    qed
  qed
qed

lemma example_stream_too_large:
  "send_message_stream (service_fails (status_error ''403'')) example_tokenizers example_cfg
     example_model ''hello'' example_history ''assistant'' 0 =
   Some ([], Some (HistoryExhaustedError (status_error ''403'')), 4,
         [(example_request example_history True, Inl (status_error ''403'')),
          (example_request (drop 1 example_history) True, Inl (status_error ''403'')),
          (example_request (drop 2 example_history) True, Inl (status_error ''403'')),
          (example_request [] True, Inl (status_error ''403''))])"
  by (simp add: stream_example_defs example_defs)

section \<open>The caller's history\<close>

text \<open>
  Claim C10. A call of \<open>send_message\<close> or \<open>send_message_stream\<close> on a reference to a list
  object ends with the result of the function of the list's value, and the other way round;
  and in the store after the call every object that was there before, the caller's list
  among them, has the value it had: a retry works on a list object built by the slice at a
  new address. What the caller is told is the count in the result.
\<close>

theorem caller_history_unchanged:
  "(send_message_st create cfg self_model message a chat_mode h s = Some (res, h', s', tr) \<longrightarrow>
      send_message create cfg self_model message (objs h a) chat_mode s = Some (res, s', tr) \<and>
      next_free h \<le> next_free h' \<and>
      (\<forall>b<next_free h. objs h' b = objs h b) \<and>
      (a < next_free h \<longrightarrow> objs h' a = objs h a)) \<and>
   (send_message create cfg self_model message (objs h a) chat_mode s = Some (res, s', tr) \<longrightarrow>
      (\<exists>h1. send_message_st create cfg self_model message a chat_mode h s =
              Some (res, h1, s', tr))) \<and>
   (send_message_stream_st create_s efm cfg self_model message a chat_mode h s2 =
      Some (out, raised, h2, s2', tr2) \<longrightarrow>
      send_message_stream create_s efm cfg self_model message (objs h a) chat_mode s2 =
        Some (out, raised, s2', tr2) \<and>
      next_free h \<le> next_free h2 \<and>
      (\<forall>b<next_free h. objs h2 b = objs h b) \<and>
      (a < next_free h \<longrightarrow> objs h2 a = objs h a)) \<and>
   (send_message_stream create_s efm cfg self_model message (objs h a) chat_mode s2 =
      Some (out, raised, s2', tr2) \<longrightarrow>
      (\<exists>h3. send_message_stream_st create_s efm cfg self_model message a chat_mode h s2 =
              Some (out, raised, h3, s2', tr2)))"
proof (intro conjI impI)
  assume run: "send_message_st create cfg self_model message a chat_mode h s =
                 Some (res, h', s', tr)"
  have "send_message create cfg self_model message (objs h a) chat_mode s = Some (res, s', tr) \<and>
        extends h h'"
  proof (cases "chat_mode \<in> dom cfg")
    case False
    with run show ?thesis
      by (auto simp: send_message_st_def send_message_def extends_refl)
  next
    case True
    with run have "send_loop_st create cfg self_model message chat_mode
        (int (length (objs h a))) a h s [] = Some (res, h', s', tr)"
      by (simp add: send_message_st_def)
    from send_loop_st_value [OF this] True show ?thesis
      by (simp add: send_message_def)
  qed
  then show "send_message create cfg self_model message (objs h a) chat_mode s =
               Some (res, s', tr)"
    and "next_free h \<le> next_free h'"
    and "\<forall>b<next_free h. objs h' b = objs h b"
    and "a < next_free h \<Longrightarrow> objs h' a = objs h a"
    by (simp_all add: extends_def)
next
  assume run: "send_message create cfg self_model message (objs h a) chat_mode s =
                 Some (res, s', tr)"
  show "\<exists>h1. send_message_st create cfg self_model message a chat_mode h s =
              Some (res, h1, s', tr)"
  proof (cases "chat_mode \<in> dom cfg")
    case False
    with run show ?thesis by (auto simp: send_message_st_def send_message_def)
  next
    case True
    with run have "send_loop create cfg self_model message chat_mode
        (int (length (objs h a))) (objs h a) s [] = Some (res, s', tr)"
      by (simp add: send_message_def)
    from send_loop_value_st [OF this, rule_format, of h a] True show ?thesis
      by (simp add: send_message_st_def)
  qed
next
  assume run: "send_message_stream_st create_s efm cfg self_model message a chat_mode h s2 =
      Some (out, raised, h2, s2', tr2)"
  have "send_message_stream create_s efm cfg self_model message (objs h a) chat_mode s2 =
        Some (out, raised, s2', tr2) \<and> extends h h2"
  proof (cases "chat_mode \<in> dom cfg")
    case False
    with run show ?thesis
      by (auto simp: send_message_stream_st_def send_message_stream_def extends_refl)
  next
    case True
    with run have "stream_loop_st create_s efm cfg self_model message chat_mode
        (int (length (objs h a))) a h None unassigned [] s2 [] = Some (out, raised, h2, s2', tr2)"
      by (simp add: send_message_stream_st_def)
    from stream_loop_st_value [OF this] True show ?thesis
      by (simp add: send_message_stream_def)
  qed
  then show "send_message_stream create_s efm cfg self_model message (objs h a) chat_mode s2 =
        Some (out, raised, s2', tr2)"
    and "next_free h \<le> next_free h2"
    and "\<forall>b<next_free h. objs h2 b = objs h b"
    and "a < next_free h \<Longrightarrow> objs h2 a = objs h a"
    by (simp_all add: extends_def)
next
  assume run: "send_message_stream create_s efm cfg self_model message (objs h a) chat_mode s2 =
      Some (out, raised, s2', tr2)"
  show "\<exists>h3. send_message_stream_st create_s efm cfg self_model message a chat_mode h s2 =
              Some (out, raised, h3, s2', tr2)"
  proof (cases "chat_mode \<in> dom cfg")
    case False
    with run show ?thesis by (auto simp: send_message_stream_st_def send_message_stream_def)
  next
    case True
    with run have "stream_loop create_s efm cfg self_model message chat_mode
        (int (length (objs h a))) (objs h a) None unassigned [] s2 [] = Some (out, raised, s2', tr2)"
      by (simp add: send_message_stream_def)
    from stream_loop_value_st [OF this, rule_format, of h a] True show ?thesis
      by (simp add: send_message_stream_st_def)
  qed
qed

theorem caller_history_unchanged_witness:
  "0 < next_free example_store \<and> objs example_store 0 = example_history \<and>
   (\<exists>h'. send_message_st service_fits_one_turn example_cfg example_model ''hello'' 0
            ''assistant'' example_store 0 =
          Some (Inr (''hi there'', (5, 3), 2), h', 3,
            [(example_request example_history False, Inl (status_error ''403'')),
             (example_request (drop 1 example_history) False, Inl (status_error ''403'')),
             (example_request (drop 2 example_history) False, Inr example_response)]) \<and>
          objs h' 0 = example_history) \<and>
   (\<exists>h'. send_message_stream_st (service_fails (status_error ''403'')) example_tokenizers
            example_cfg example_model ''hello'' 0 ''assistant'' example_store 0 =
          Some ([], Some (HistoryExhaustedError (status_error ''403'')), h', 4,
            [(example_request example_history True, Inl (status_error ''403'')),
             (example_request (drop 1 example_history) True, Inl (status_error ''403'')),
             (example_request (drop 2 example_history) True, Inl (status_error ''403'')),
             (example_request [] True, Inl (status_error ''403''))]) \<and>
          objs h' 0 = example_history)"
proof -
  let ?tr = "[(example_request example_history False, Inl (status_error ''403'')),
             (example_request (drop 1 example_history) False, Inl (status_error ''403'')),
             (example_request (drop 2 example_history) False, Inr example_response)] :: trace"
  let ?tr2 = "[(example_request example_history True, Inl (status_error ''403'')),
             (example_request (drop 1 example_history) True, Inl (status_error ''403'')),
             (example_request (drop 2 example_history) True, Inl (status_error ''403'')),
             (example_request [] True, Inl (status_error ''403''))] :: stream_trace"
  let ?fail = "service_fails (status_error ''403'') :: nat create_stream"
  have n: "0 < next_free example_store" by (simp add: example_store_def)
  have o: "objs example_store 0 = example_history" by (simp add: example_store_def)
  have run1: "send_message service_fits_one_turn example_cfg example_model ''hello''
      (objs example_store 0) ''assistant'' 0 = Some (Inr (''hi there'', (5, 3), 2), 3, ?tr)"
    using example_one_turn by (simp only: o)
  have run2: "send_message_stream ?fail example_tokenizers example_cfg example_model ''hello''
      (objs example_store 0) ''assistant'' 0 =
      Some ([], Some (HistoryExhaustedError (status_error ''403'')), 4, ?tr2)"
    using example_stream_too_large by (simp only: o)
  note inst = caller_history_unchanged [where create = service_fits_one_turn
      and cfg = example_cfg and self_model = example_model and message = "''hello''" and a = 0
      and chat_mode = "''assistant''" and h = example_store and s = 0
      and res = "Inr (''hi there'', (5, 3), 2)" and s' = 3 and tr = "?tr"
      and create_s = "?fail" and efm = example_tokenizers and ?s2.0 = 0 and out = "[]"
      and raised = "Some (HistoryExhaustedError (status_error ''403''))" and s2' = 4
      and ?tr2.0 = "?tr2"]
  from inst run1 obtain h1 where
    st1: "send_message_st service_fits_one_turn example_cfg example_model ''hello'' 0
            ''assistant'' example_store 0 = Some (Inr (''hi there'', (5, 3), 2), h1, 3, ?tr)"
    by blast
  from inst run2 obtain h3 where
    st2: "send_message_stream_st ?fail example_tokenizers example_cfg example_model ''hello'' 0
            ''assistant'' example_store 0 =
          Some ([], Some (HistoryExhaustedError (status_error ''403'')), h3, 4, ?tr2)"
    by blast
  from inst [where h' = h1] st1 n have f1: "objs h1 0 = objs example_store 0" by blast
  from inst [where ?h2.0 = h3] st2 n have f2: "objs h3 0 = objs example_store 0" by blast
  from n o st1 st2 f1 f2 show ?thesis by auto
qed

end
